theory Spec2Isabelle
  imports Main "HOL-Library.Sublist"
begin

section \<open>Data model\<close>

text \<open>
  The development embeds \<open>src/v3/parser.ts\<close>, which turns one operation of an OpenAPI v3
  document into named interfaces. Conventions:
  \<^item> A JavaScript string is a \<open>string\<close> (a list of 8-bit characters); an optional property
    is an \<open>option\<close>. A string is truthy when it is present and not empty (\<open>truthy\<close>).
  \<^item> An object used as a dictionary (\<open>properties\<close>, \<open>paths\<close>, \<open>components.schemas\<close>, a
    \<open>content\<close> map) is an association list in the order in which \<open>Object.keys\<close> lists it;
    \<open>map_of\<close> reads an own property. A read that can reach \<open>Object.prototype\<close> and behave
    otherwise than an absent key is modelled where it occurs, in \<open>parser\<close>.
  \<^item> \<open>Schema\<close> and \<open>Definition\<close> are one type: \<open>resolveSchema\<close> passes a schema where a
    definition is expected (\<open>schema as Definition\<close>).
  \<^item> The collector is an \<open>Interface list\<close>; \<open>unshift\<close> is \<open>(#)\<close> and \<open>at(-1)\<close> reads the end
    of the list.
  \<^item> \<open>console.log\<close> lines are advisory and change no value; they are left out.
\<close>

datatype Schema = Schema
  (schema_type: "string option")
  (schema_items: "Schema option")
  (schema_format: "string option")
  (schema_ref: "string option")
  (schema_description: "string option")
  (schema_properties: "(string \<times> Schema) list option")
  (schema_required: "string list option")

type_synonym Definition = Schema

record Field =
  field_name :: string
  field_optional :: bool
  field_type :: string
  field_description :: "string option"
  field_format :: "string option"

record Interface =
  interface_name :: string
  interface_description :: "string option"
  interface_fields :: "Field list"

definition definitionPrefix :: string where
  "definitionPrefix = ''#/components/schemas/''"

definition truthy :: "string option \<Rightarrow> bool" where
  "truthy s = (case s of None \<Rightarrow> False | Some v \<Rightarrow> v \<noteq> [])"

fun javaTypeToTsKeyword :: "Schema \<Rightarrow> string option" where
  "javaTypeToTsKeyword (Schema ty items fmt r d p rq) =
     (let type = (case ty of None \<Rightarrow> [] | Some t \<Rightarrow> t) in
      if type = ''file'' \<or> fmt = Some ''binary'' then Some ''File''
      else if type \<in> set [''number'', ''integer''] then Some ''number''
      else if type \<in> set [''string'', ''boolean'', ''object''] then Some type
      else if type = ''array'' then
        (let tsKeyword =
           (case items of
              None \<Rightarrow> None
            | Some it \<Rightarrow>
                if truthy (schema_ref it) then schema_ref it
                else if truthy (schema_type it) then javaTypeToTsKeyword it
                else None)
         in if truthy tsKeyword then map_option (\<lambda>k. k @ ''[]'') tsKeyword else None)
      else None)"

subsection \<open>The two regular expressions of the rewrite pass\<close>

text \<open>
  \<open>transformInterfaceBody\<close> uses \<open>item.type.split(/(\[.*\])?$/)[0]\<close> and
  \<open>item.type.replace(/.*?(\[.*\])?$/, `${name}$1`)\<close>. In both, \<open>.\<close> matches any character
  but a line terminator and \<open>$\<close> matches at the end of the input only.
  \<^item> \<open>bracketTail cs\<close>: the text \<open>cs\<close> that follows an opening bracket matches \<open>.*\]\<close> up to
    the end of the input.
  \<^item> \<open>splitSuffix s\<close>: the text before the first position at which the group
    \<open>(\[.*\])\<close> matches up to the end, and the group's match. Its first component is what
    \<open>split(...)[0]\<close> returns (the matcher is never tried at the very end of the string).
  \<^item> \<open>lastLine s\<close>: the replacement pattern cannot match across a line terminator, so
    its first match starts after the last one; the text before it is kept.
  \<^item> \<open>getSubstitution\<close>: the expansion of a replacement string for a pattern with one
    capture group: \<open>$$\<close>, \<open>$&\<close>, the text before and after the match, \<open>$1\<close> and \<open>$01\<close>;
    every other character is copied.
  \<^item> \<open>replaceType name s\<close>: the result of the \<open>replace\<close> call for the extracted \<open>name\<close>.
\<close>

definition lineTerminator :: "char \<Rightarrow> bool" where
  "lineTerminator c = (c = CHR 0x0A \<or> c = CHR 0x0D)"

definition bracketTail :: "string \<Rightarrow> bool" where
  "bracketTail cs =
     (cs \<noteq> [] \<and> last cs = CHR '']'' \<and> list_all (\<lambda>c. \<not> lineTerminator c) (butlast cs))"

fun splitSuffix :: "string \<Rightarrow> string \<times> string option" where
  "splitSuffix [] = ([], None)"
| "splitSuffix (c # cs) =
     (if c = CHR ''['' \<and> bracketTail cs then ([], Some (c # cs))
      else (case splitSuffix cs of (base, arr) \<Rightarrow> (c # base, arr)))"

definition lastLine :: "string \<Rightarrow> string \<times> string" where
  "lastLine s =
     (let line = rev (takeWhile (\<lambda>c. \<not> lineTerminator c) (rev s))
      in (take (length s - length line) s, line))"

fun getSubstitution :: "string \<Rightarrow> string \<Rightarrow> string \<Rightarrow> string option \<Rightarrow> string \<Rightarrow> string" where
  "getSubstitution matched preceding following cap [] = []"
| "getSubstitution matched preceding following cap [c] = [c]"
| "getSubstitution matched preceding following cap (c # d # r) =
     (if c = CHR ''$'' \<and> d = CHR ''$'' then CHR ''$'' # getSubstitution matched preceding following cap r
      else if c = CHR ''$'' \<and> d = CHR ''&'' then matched @ getSubstitution matched preceding following cap r
      else if c = CHR ''$'' \<and> d = CHR 0x60 then preceding @ getSubstitution matched preceding following cap r
      else if c = CHR ''$'' \<and> d = CHR 0x27 then following @ getSubstitution matched preceding following cap r
      else if c = CHR ''$'' \<and> d = CHR ''0'' \<and> r \<noteq> [] \<and> hd r = CHR ''1''
        then (case cap of None \<Rightarrow> [] | Some s \<Rightarrow> s) @ getSubstitution matched preceding following cap (tl r)
      else if c = CHR ''$'' \<and> d = CHR ''1''
        then (case cap of None \<Rightarrow> [] | Some s \<Rightarrow> s) @ getSubstitution matched preceding following cap r
      else c # getSubstitution matched preceding following cap (d # r))"

definition replaceType :: "string \<Rightarrow> string \<Rightarrow> string" where
  "replaceType name ty =
     (case lastLine ty of (preceding, line) \<Rightarrow>
        (case splitSuffix line of (base, arr) \<Rightarrow>
           preceding @ getSubstitution line preceding [] arr (name @ ''$1'')))"

subsection \<open>The resolvers\<close>

text \<open>
  \<open>propertyFields\<close> is the loop of \<open>resolveProperties\<close> over \<open>Object.keys(properties)\<close>: it
  returns \<open>interfaceBody\<close>.

  \<open>matchRefTypeName\<close> is imported from \<open>../utils\<close>, which is not among the sources. The
  resolvers take it as their first argument, so that what is proved of them holds for
  whatever that helper computes.

  The three resolvers call each other, and \<open>transformInterfaceBody\<close> passes the collector
  that one call returns to the next. The interface pushed by \<open>resolveProperties\<close> shares its
  \<open>fields\<close> array with \<open>interfaceBody\<close>, whose items the rewrite pass then changes in place;
  interfaces registered meanwhile are inserted in front of it. The model returns the
  rewritten body together with the collector and writes it into that interface, which is
  found by its distance from the end of the collector.
\<close>

definition emptySchema :: Schema where
  "emptySchema = Schema None None None None None None None"

primrec propertyFields :: "(string \<times> Schema) list \<Rightarrow> string list \<Rightarrow> bool \<Rightarrow> string list \<Rightarrow> Field list" where
  "propertyFields properties required markRequired [] = []"
| "propertyFields properties required markRequired (propName # rest) =
     (let property = (case map_of properties propName of None \<Rightarrow> emptySchema | Some s \<Rightarrow> s);
          tsKeyword =
            (if truthy (schema_ref property) then schema_ref property
             else if truthy (schema_type property) then javaTypeToTsKeyword property
             else None)
      in case tsKeyword of
           None \<Rightarrow> propertyFields properties required markRequired rest
         | Some t \<Rightarrow>
             if t = [] then propertyFields properties required markRequired rest
             else \<lparr>field_name = propName,
                   field_optional = (\<not> markRequired \<or> propName \<notin> set required),
                   field_type = t,
                   field_description = schema_description property,
                   field_format = schema_format property\<rparr>
                  # propertyFields properties required markRequired rest)"

function resolveInterface ::
    "(string \<Rightarrow> string \<Rightarrow> string) \<Rightarrow> string \<Rightarrow> (string \<times> Definition) list \<Rightarrow> Interface list \<Rightarrow> bool
       \<Rightarrow> Interface list"
  and resolveProperties ::
    "(string \<Rightarrow> string \<Rightarrow> string) \<Rightarrow> string \<Rightarrow> Definition option \<Rightarrow> (string \<times> Definition) list
       \<Rightarrow> Interface list \<Rightarrow> bool \<Rightarrow> Interface list"
  and transformInterfaceBody ::
    "(string \<Rightarrow> string \<Rightarrow> string) \<Rightarrow> Field list \<Rightarrow> (string \<times> Definition) list \<Rightarrow> Interface list \<Rightarrow> bool
       \<Rightarrow> Field list \<times> Interface list"
where
  "resolveInterface matchRefTypeName ref definitions collector markRequired =
     (if ref = [] then collector
      else let name = matchRefTypeName definitionPrefix ref in
        if name \<in> set (map interface_name collector) then collector
        else resolveProperties matchRefTypeName name
               (map_of definitions (drop (length definitionPrefix) ref))
               definitions collector markRequired)"
| "resolveProperties matchRefTypeName name definition definitions collector markRequired =
     (case Option.bind definition schema_properties of
        None \<Rightarrow> collector
      | Some properties \<Rightarrow>
          let required = (case Option.bind definition schema_required of None \<Rightarrow> [] | Some r \<Rightarrow> r);
              description = Option.bind definition schema_description;
              interfaceBody = propertyFields properties required markRequired (map fst properties)
          in case transformInterfaceBody matchRefTypeName interfaceBody definitions
                    (\<lparr>interface_name = name, interface_description = description,
                      interface_fields = interfaceBody\<rparr> # collector) markRequired of
               (interfaceBody', collector') \<Rightarrow>
                 (let i = length collector' - Suc (length collector)
                  in collector'[i := (collector' ! i)\<lparr>interface_fields := interfaceBody'\<rparr>]))"
| "transformInterfaceBody matchRefTypeName [] definitions collector markRequired = ([], collector)"
| "transformInterfaceBody matchRefTypeName (item # rest) definitions collector markRequired =
     (if prefix definitionPrefix (field_type item) then
        (let ref = fst (splitSuffix (field_type item));
             collector' = resolveInterface matchRefTypeName ref definitions collector markRequired;
             item' = item\<lparr>field_type :=
                       replaceType (matchRefTypeName definitionPrefix (field_type item)) (field_type item)\<rparr>
         in case transformInterfaceBody matchRefTypeName rest definitions collector' markRequired of
              (rest', collector'') \<Rightarrow> (item' # rest', collector''))
      else
        (case transformInterfaceBody matchRefTypeName rest definitions collector markRequired of
           (rest', collector'') \<Rightarrow> (item # rest', collector'')))"
  by pat_completeness auto

subsection \<open>Termination\<close>

text \<open>
  A call of \<open>resolveProperties\<close> through \<open>resolveInterface\<close> adds a name that the collector
  did not hold. The names that can ever be added are those of the references in the
  definitions table (\<open>tableNames\<close>) and in the body at hand (\<open>pendingNames\<close>); the number
  of them not yet in the collector decreases along the recursion.
\<close>

definition collectorNames :: "Interface list \<Rightarrow> string set" where
  "collectorNames collector = set (map interface_name collector)"

definition pendingNames :: "(string \<Rightarrow> string \<Rightarrow> string) \<Rightarrow> string list \<Rightarrow> string set" where
  "pendingNames matchRefTypeName tys =
     (\<lambda>ty. matchRefTypeName definitionPrefix (fst (splitSuffix ty))) ` {ty \<in> set tys. prefix definitionPrefix ty}"

definition definitionTypes :: "Definition option \<Rightarrow> string list" where
  "definitionTypes definition =
     (case Option.bind definition schema_properties of
        None \<Rightarrow> []
      | Some properties \<Rightarrow> map field_type (propertyFields properties [] True (map fst properties)))"

definition tableNames :: "(string \<Rightarrow> string \<Rightarrow> string) \<Rightarrow> (string \<times> Definition) list \<Rightarrow> string set" where
  "tableNames matchRefTypeName definitions =
     (\<Union>d \<in> snd ` set definitions. pendingNames matchRefTypeName (definitionTypes (Some d)))"

fun resolve_count ::
  "((string \<Rightarrow> string \<Rightarrow> string) \<times> string \<times> (string \<times> Definition) list \<times> Interface list \<times> bool) +
   ((string \<Rightarrow> string \<Rightarrow> string) \<times> string \<times> Definition option \<times> (string \<times> Definition) list \<times> Interface list \<times> bool) +
   ((string \<Rightarrow> string \<Rightarrow> string) \<times> Field list \<times> (string \<times> Definition) list \<times> Interface list \<times> bool) \<Rightarrow> nat" where
  "resolve_count (Inl (m, ref, defs, coll, mr)) =
     card ((tableNames m defs \<union> {m definitionPrefix ref}) - collectorNames coll)"
| "resolve_count (Inr (Inl (m, name, d, defs, coll, mr))) =
     card ((tableNames m defs \<union> pendingNames m (definitionTypes d)) - collectorNames coll - {name})"
| "resolve_count (Inr (Inr (m, body, defs, coll, mr))) =
     card ((tableNames m defs \<union> pendingNames m (map field_type body)) - collectorNames coll)"

fun resolve_tag ::
  "((string \<Rightarrow> string \<Rightarrow> string) \<times> string \<times> (string \<times> Definition) list \<times> Interface list \<times> bool) +
   ((string \<Rightarrow> string \<Rightarrow> string) \<times> string \<times> Definition option \<times> (string \<times> Definition) list \<times> Interface list \<times> bool) +
   ((string \<Rightarrow> string \<Rightarrow> string) \<times> Field list \<times> (string \<times> Definition) list \<times> Interface list \<times> bool) \<Rightarrow> nat" where
  "resolve_tag (Inl _) = 0"
| "resolve_tag (Inr (Inl _)) = 2"
| "resolve_tag (Inr (Inr (m, body, defs, coll, mr))) = 1"

fun resolve_len ::
  "((string \<Rightarrow> string \<Rightarrow> string) \<times> string \<times> (string \<times> Definition) list \<times> Interface list \<times> bool) +
   ((string \<Rightarrow> string \<Rightarrow> string) \<times> string \<times> Definition option \<times> (string \<times> Definition) list \<times> Interface list \<times> bool) +
   ((string \<Rightarrow> string \<Rightarrow> string) \<times> Field list \<times> (string \<times> Definition) list \<times> Interface list \<times> bool) \<Rightarrow> nat" where
  "resolve_len (Inr (Inr (m, body, defs, coll, mr))) = length body"
| "resolve_len _ = 0"

lemma names_update_fields:
  "map interface_name (xs[i := (xs ! i)\<lparr>interface_fields := b\<rparr>]) = map interface_name xs"
proof (cases "i < length xs")
  case True
  have "map interface_name (xs[i := (xs ! i)\<lparr>interface_fields := b\<rparr>])
          = (map interface_name xs)[i := (map interface_name xs) ! i]"
    using True by (simp add: map_update)
  then show ?thesis by simp
next
  case False
  then have "xs[i := (xs ! i)\<lparr>interface_fields := b\<rparr>] = xs"
    by (intro list_update_beyond) simp
  then show ?thesis by (rule arg_cong)
qed

lemma collectorNames_update_fields:
  "collectorNames (xs[i := (xs ! i)\<lparr>interface_fields := b\<rparr>]) = collectorNames xs"
  by (simp only: collectorNames_def names_update_fields)

lemma collectorNames_Cons:
  "collectorNames (x # xs) = insert (interface_name x) (collectorNames xs)"
  by (simp add: collectorNames_def)

lemma collectorNames_partial:
  "resolveInterface_resolveProperties_transformInterfaceBody_dom (Inl (m, ref, defs, coll, mr))
     \<Longrightarrow> collectorNames coll \<subseteq> collectorNames (resolveInterface m ref defs coll mr)"
  "resolveInterface_resolveProperties_transformInterfaceBody_dom (Inr (Inl (m, name, d, defs, coll, mr)))
     \<Longrightarrow> collectorNames coll \<subseteq> collectorNames (resolveProperties m name d defs coll mr)"
  "resolveInterface_resolveProperties_transformInterfaceBody_dom (Inr (Inr (m, body, defs, coll, mr)))
     \<Longrightarrow> collectorNames coll \<subseteq> collectorNames (snd (transformInterfaceBody m body defs coll mr))"
proof (induct rule: resolveInterface_resolveProperties_transformInterfaceBody.pinduct)
  case (1 m ref defs coll mr)
  then show ?case
    by (simp add: resolveInterface.psimps Let_def)
next
  case (2 m name d defs coll mr)
  show ?case
  proof (cases "Option.bind d schema_properties")
    case None
    with 2(1) show ?thesis by (simp add: resolveProperties.psimps)
  next
    case (Some props)
    let ?req = "case Option.bind d schema_required of None \<Rightarrow> [] | Some r \<Rightarrow> r"
    let ?body = "propertyFields props ?req mr (map fst props)"
    let ?iface = "\<lparr>interface_name = name, interface_description = Option.bind d schema_description,
                    interface_fields = ?body\<rparr>"
    obtain b c where bc: "transformInterfaceBody m ?body defs (?iface # coll) mr = (b, c)"
      by (cases "transformInterfaceBody m ?body defs (?iface # coll) mr")
    have "collectorNames (?iface # coll) \<subseteq> collectorNames c"
      using 2(2)[OF Some refl refl refl] bc by simp
    then have "collectorNames coll \<subseteq> collectorNames c"
      by (auto simp: collectorNames_Cons)
    moreover have "resolveProperties m name d defs coll mr
        = c[length c - Suc (length coll) := (c ! (length c - Suc (length coll)))\<lparr>interface_fields := b\<rparr>]"
      using 2(1) Some bc by (simp add: resolveProperties.psimps Let_def)
    ultimately show ?thesis
      by (simp only: collectorNames_update_fields)
  qed
next
  case (3 m defs coll mr)
  then show ?case
    by (simp add: transformInterfaceBody.psimps)
next
  case (4 m item rest defs coll mr)
  show ?case
  proof (cases "prefix definitionPrefix (field_type item)")
    case True
    let ?c1 = "resolveInterface m (fst (splitSuffix (field_type item))) defs coll mr"
    have a: "collectorNames coll \<subseteq> collectorNames ?c1"
      using 4(2)[OF True refl] .
    have b: "collectorNames ?c1 \<subseteq> collectorNames (snd (transformInterfaceBody m rest defs ?c1 mr))"
      using 4(3)[OF True refl refl refl] .
    have "snd (transformInterfaceBody m (item # rest) defs coll mr)
            = snd (transformInterfaceBody m rest defs ?c1 mr)"
      using 4(1) True by (simp add: transformInterfaceBody.psimps Let_def split: prod.splits)
    with a b show ?thesis by auto
  next
    case False
    have "snd (transformInterfaceBody m (item # rest) defs coll mr)
            = snd (transformInterfaceBody m rest defs coll mr)"
      using 4(1) False by (simp add: transformInterfaceBody.psimps split: prod.splits)
    with 4(4)[OF False] show ?thesis by simp
  qed
qed

lemma finite_pendingNames: "finite (pendingNames m tys)"
  by (simp add: pendingNames_def)

lemma finite_tableNames: "finite (tableNames m defs)"
  by (simp add: tableNames_def finite_pendingNames)

lemma pendingNames_Cons:
  "pendingNames m (ty # tys) =
     (if prefix definitionPrefix ty
      then insert (m definitionPrefix (fst (splitSuffix ty))) (pendingNames m tys)
      else pendingNames m tys)"
  by (auto simp: pendingNames_def)

lemma propertyFields_types:
  "map field_type (propertyFields ps req mr ks) = map field_type (propertyFields ps req' mr' ks)"
  by (induction ks) (simp_all add: Let_def split: option.splits)

lemma definitionTypes_fields:
  "Option.bind d schema_properties = Some ps
     \<Longrightarrow> map field_type (propertyFields ps req mr (map fst ps)) = definitionTypes d"
  by (simp add: definitionTypes_def propertyFields_types[of ps req mr _ "[]" True])

lemma pendingNames_table:
  "pendingNames m (definitionTypes (map_of defs k)) \<subseteq> tableNames m defs"
proof (cases "map_of defs k")
  case None
  then show ?thesis by (simp add: definitionTypes_def pendingNames_def)
next
  case (Some d)
  then have "d \<in> snd ` set defs"
    by (metis map_of_SomeD snd_conv image_eqI)
  with Some show ?thesis by (auto simp: tableNames_def)
qed

lemma measures_less:
  "f x < f y \<Longrightarrow> (x, y) \<in> measures (f # fs)"
  by simp

lemma count_call_properties:
  fixes coll :: "Interface list"
  assumes x: "x = m definitionPrefix ref" and fresh: "x \<notin> set (map interface_name coll)"
  shows "resolve_count (Inr (Inl (m, x, map_of defs k, defs, coll, mr)))
           < resolve_count (Inl (m, ref, defs, coll, mr))"
proof -
  let ?T = "tableNames m defs" and ?N = "collectorNames coll"
  let ?A = "?T - ?N - {x}"
  have "pendingNames m (definitionTypes (map_of defs k)) \<subseteq> ?T"
    by (rule pendingNames_table)
  then have "?T \<union> pendingNames m (definitionTypes (map_of defs k)) = ?T"
    by (rule Un_absorb2)
  then have lhs: "resolve_count (Inr (Inl (m, x, map_of defs k, defs, coll, mr))) = card ?A"
    by (simp only: resolve_count.simps)
  have "x \<notin> ?N"
    using fresh unfolding collectorNames_def .
  then have "(?T \<union> {x}) - ?N = insert x ?A"
    by blast
  then have rhs: "resolve_count (Inl (m, ref, defs, coll, mr)) = card (insert x ?A)"
    by (simp only: resolve_count.simps x)
  have "finite ?A"
    by (intro finite_Diff finite_tableNames)
  moreover have "x \<notin> ?A"
    by blast
  ultimately have "card (insert x ?A) = Suc (card ?A)"
    by (rule card_insert_disjoint)
  with lhs rhs show ?thesis
    by linarith
qed

lemma count_call_transform:
  fixes coll :: "Interface list"
  assumes ps: "Option.bind d schema_properties = Some ps"
    and body: "body = propertyFields ps req mr (map fst ps)"
  shows "resolve_count (Inr (Inr (m, body, defs,
            \<lparr>interface_name = name, interface_description = desc, interface_fields = body\<rparr> # coll, mr)))
         = resolve_count (Inr (Inl (m, name, d, defs, coll, mr)))"
proof -
  have "map field_type body = definitionTypes d"
    unfolding body using ps by (rule definitionTypes_fields)
  moreover have "collectorNames (\<lparr>interface_name = name, interface_description = desc,
                     interface_fields = body\<rparr> # coll) = insert name (collectorNames coll)"
    by (simp add: collectorNames_Cons)
  moreover have "A - insert name (collectorNames coll) = A - collectorNames coll - {name}" for A :: "string set"
    by blast
  ultimately show ?thesis
    by (simp only: resolve_count.simps)
qed

lemma count_call_item:
  fixes coll :: "Interface list"
  assumes pre: "prefix definitionPrefix (field_type item)"
    and x: "x = fst (splitSuffix (field_type item))"
  shows "resolve_count (Inl (m, x, defs, coll, mr))
           \<le> resolve_count (Inr (Inr (m, item # rest, defs, coll, mr)))"
proof -
  have "m definitionPrefix x \<in> pendingNames m (map field_type (item # rest))"
    using pre x by (simp add: pendingNames_Cons)
  then have "(tableNames m defs \<union> {m definitionPrefix x}) - collectorNames coll
          \<subseteq> (tableNames m defs \<union> pendingNames m (map field_type (item # rest))) - collectorNames coll"
    by blast
  moreover have "finite ((tableNames m defs \<union> pendingNames m (map field_type (item # rest))) - collectorNames coll)"
    by (intro finite_Diff finite_UnI finite_tableNames finite_pendingNames)
  ultimately show ?thesis
    unfolding resolve_count.simps by (rule card_mono[rotated])
qed

lemma count_call_rest:
  fixes coll c1 :: "Interface list"
  assumes sub: "collectorNames coll \<subseteq> collectorNames c1"
  shows "resolve_count (Inr (Inr (m, rest, defs, c1, mr)))
           \<le> resolve_count (Inr (Inr (m, item # rest, defs, coll, mr)))"
proof -
  have "pendingNames m (map field_type rest) \<subseteq> pendingNames m (map field_type (item # rest))"
    by (auto simp: pendingNames_Cons)
  with sub have "(tableNames m defs \<union> pendingNames m (map field_type rest)) - collectorNames c1
          \<subseteq> (tableNames m defs \<union> pendingNames m (map field_type (item # rest))) - collectorNames coll"
    by blast
  moreover have "finite ((tableNames m defs \<union> pendingNames m (map field_type (item # rest))) - collectorNames coll)"
    by (intro finite_Diff finite_UnI finite_tableNames finite_pendingNames)
  ultimately show ?thesis
    unfolding resolve_count.simps by (rule card_mono[rotated])
qed

lemma measures_tag:
  "resolve_count x \<le> resolve_count y \<Longrightarrow> resolve_tag x < resolve_tag y
     \<Longrightarrow> (x, y) \<in> measures [resolve_count, resolve_tag, resolve_len]"
  by auto

lemma measures_len:
  "resolve_count x \<le> resolve_count y \<Longrightarrow> resolve_tag x = resolve_tag y
     \<Longrightarrow> resolve_len x < resolve_len y
     \<Longrightarrow> (x, y) \<in> measures [resolve_count, resolve_tag, resolve_len]"
  by auto

lemma resolve_total:
  "All resolveInterface_resolveProperties_transformInterfaceBody_dom"
proof (rule "resolveInterface_resolveProperties_transformInterfaceBody.termination"
         [where R = "measures [resolve_count, resolve_tag, resolve_len]"])
  show "wf (measures [resolve_count, resolve_tag, resolve_len])"
    by (rule wf_measures)
next
  fix m :: "string \<Rightarrow> string \<Rightarrow> string" and ref :: string and defs :: "(string \<times> Definition) list"
    and coll :: "Interface list" and mr :: bool and x :: string
  assume "x = m definitionPrefix ref" and "x \<notin> set (map interface_name coll)"
  then show "(Inr (Inl (m, x, map_of defs (drop (length definitionPrefix) ref), defs, coll, mr)),
              Inl (m, ref, defs, coll, mr)) \<in> measures [resolve_count, resolve_tag, resolve_len]"
    by (intro measures_less count_call_properties)
next
  fix m :: "string \<Rightarrow> string \<Rightarrow> string" and name :: string and d :: "Definition option"
    and defs :: "(string \<times> Definition) list"
    and coll :: "Interface list" and mr :: bool and ps :: "(string \<times> Schema) list" and req :: "string list"
    and desc :: "string option" and body :: "Field list"
  let ?callee = "Inr (Inr (m, body, defs,
                 \<lparr>interface_name = name, interface_description = desc, interface_fields = body\<rparr> # coll, mr))"
  let ?caller = "Inr (Inl (m, name, d, defs, coll, mr))"
  assume "Option.bind d schema_properties = Some ps"
    and "body = propertyFields ps req mr (map fst ps)"
  then have "resolve_count ?callee = resolve_count ?caller"
    by (rule count_call_transform)
  then have le: "resolve_count ?callee \<le> resolve_count ?caller"
    by (rule eq_imp_le)
  have tag: "resolve_tag ?callee < resolve_tag ?caller"
    by simp
  from le tag show "(?callee, ?caller) \<in> measures [resolve_count, resolve_tag, resolve_len]"
    by (rule measures_tag)
next
  fix m :: "string \<Rightarrow> string \<Rightarrow> string" and item :: Field and rest :: "Field list" and defs :: "(string \<times> Definition) list"
    and coll :: "Interface list" and mr :: bool and x :: string
  let ?callee = "Inl (m, x, defs, coll, mr)"
  let ?caller = "Inr (Inr (m, item # rest, defs, coll, mr))"
  assume "prefix definitionPrefix (field_type item)"
    and "x = fst (splitSuffix (field_type item))"
  then have le: "resolve_count ?callee \<le> resolve_count ?caller"
    by (rule count_call_item)
  have tag: "resolve_tag ?callee < resolve_tag ?caller"
    by simp
  from le tag show "(?callee, ?caller) \<in> measures [resolve_count, resolve_tag, resolve_len]"
    by (rule measures_tag)
next
  fix m :: "string \<Rightarrow> string \<Rightarrow> string" and item :: Field and rest :: "Field list" and defs :: "(string \<times> Definition) list"
    and coll :: "Interface list" and mr :: bool and x :: string and c1 :: "Interface list"
  let ?callee = "Inr (Inr (m, rest, defs, c1, mr))"
  let ?caller = "Inr (Inr (m, item # rest, defs, coll, mr))"
  assume c1: "c1 = resolveInterface m x defs coll mr"
    and dom: "resolveInterface_resolveProperties_transformInterfaceBody_dom (Inl (m, x, defs, coll, mr))"
  have "collectorNames coll \<subseteq> collectorNames c1"
    unfolding c1 using dom by (rule collectorNames_partial(1))
  then have le: "resolve_count ?callee \<le> resolve_count ?caller"
    by (rule count_call_rest)
  have tag: "resolve_tag ?callee = resolve_tag ?caller"
    by simp
  have len: "resolve_len ?callee < resolve_len ?caller"
    by simp
  from le tag len show "(?callee, ?caller) \<in> measures [resolve_count, resolve_tag, resolve_len]"
    by (rule measures_len)
next
  fix m :: "string \<Rightarrow> string \<Rightarrow> string" and item :: Field and rest :: "Field list" and defs :: "(string \<times> Definition) list"
    and coll :: "Interface list" and mr :: bool
  let ?callee = "Inr (Inr (m, rest, defs, coll, mr))"
  let ?caller = "Inr (Inr (m, item # rest, defs, coll, mr))"
  have le: "resolve_count ?callee \<le> resolve_count ?caller"
    by (rule count_call_rest) (rule subset_refl)
  have tag: "resolve_tag ?callee = resolve_tag ?caller"
    by simp
  have len: "resolve_len ?callee < resolve_len ?caller"
    by simp
  from le tag len show "(?callee, ?caller) \<in> measures [resolve_count, resolve_tag, resolve_len]"
    by (rule measures_len)
qed

termination resolveInterface
  by (rule resolve_total)

section \<open>Parameter, schema and operation level\<close>

record ParameterV3 =
  parameter_name :: string
  parameter_in :: string
  parameter_required :: "bool option"
  parameter_description :: "string option"
  parameter_schema :: "Schema option"

record MediaType =
  mediaType_schema :: "Schema option"

record RequestBody =
  requestBody_content :: "(string \<times> MediaType) list option"

record Response =
  response_content :: "(string \<times> MediaType) list option"

record RequestDefinitionV3 =
  request_operationId :: string
  request_summary :: "string option"
  request_description :: "string option"
  request_parameters :: "ParameterV3 list option"
  request_requestBody :: "RequestBody option"
  request_responses :: "(string \<times> Response) list"

record SwaggerV3 =
  swagger_paths :: "(string \<times> (string \<times> RequestDefinitionV3) list) list"
  swagger_schemas :: "(string \<times> Definition) list"

record ParseResult =
  result_name :: string
  result_comment :: string
  result_body :: "string option"
  result_isFormData :: bool
  result_pathVar :: "string option"
  result_query :: "string option"
  result_res :: "string option"
  result_interfaces :: "Interface list"

text \<open>
  \<open>parameterKeyword\<close> is the \<open>tsKeyword\<close> of a parameter; \<open>parametersLoop\<close> is the loop of
  \<open>resolveParameters\<close> over the parameters, returning the collector and \<open>interfaceBody\<close>.
\<close>

definition parameterKeyword :: "ParameterV3 \<Rightarrow> string option" where
  "parameterKeyword parameter =
     (let schema = parameter_schema parameter in
      if truthy (Option.bind schema schema_ref) then Option.bind schema schema_ref
      else if truthy (Option.bind schema schema_type)
        then (case schema of None \<Rightarrow> None | Some s \<Rightarrow> javaTypeToTsKeyword s)
      else None)"

primrec parametersLoop ::
    "(string \<Rightarrow> string \<Rightarrow> string) \<Rightarrow> ParameterV3 list \<Rightarrow> (string \<times> Definition) list
       \<Rightarrow> Interface list \<Rightarrow> Field list \<Rightarrow> Interface list \<times> Field list" where
  "parametersLoop matchRefTypeName [] definitions collector interfaceBody = (collector, interfaceBody)"
| "parametersLoop matchRefTypeName (parameter # rest) definitions collector interfaceBody =
     (let schema = parameter_schema parameter;
          collector' =
            (case Option.bind schema schema_ref of
               None \<Rightarrow> collector
             | Some ref \<Rightarrow>
                 if ref = [] then collector
                 else resolveInterface matchRefTypeName ref definitions collector True)
      in case parameterKeyword parameter of
           None \<Rightarrow> parametersLoop matchRefTypeName rest definitions collector' interfaceBody
         | Some t \<Rightarrow>
             if t = [] then parametersLoop matchRefTypeName rest definitions collector' interfaceBody
             else parametersLoop matchRefTypeName rest definitions collector'
                    (interfaceBody @
                     [\<lparr>field_name = parameter_name parameter,
                       field_optional = (parameter_required parameter \<noteq> Some True),
                       field_type = t,
                       field_description = parameter_description parameter,
                       field_format = Option.bind schema schema_format\<rparr>]))"

definition resolveParameters ::
    "(string \<Rightarrow> string \<Rightarrow> string) \<Rightarrow> string \<Rightarrow> ParameterV3 list \<Rightarrow> (string \<times> Definition) list
       \<Rightarrow> Interface list" where
  "resolveParameters matchRefTypeName interfaceName parameters definitions =
     (case parametersLoop matchRefTypeName parameters definitions [] [] of
        (collector, interfaceBody) \<Rightarrow>
          if interfaceBody \<noteq> [] then
            (case transformInterfaceBody matchRefTypeName interfaceBody definitions
                    (\<lparr>interface_name = interfaceName, interface_description = None,
                      interface_fields = interfaceBody\<rparr> # collector) True of
               (interfaceBody', collector') \<Rightarrow>
                 (let i = length collector' - Suc (length collector)
                  in collector'[i := (collector' ! i)\<lparr>interface_fields := interfaceBody'\<rparr>]))
          else snd (transformInterfaceBody matchRefTypeName interfaceBody definitions collector True))"

definition lastName :: "Interface list \<Rightarrow> string option" where
  "lastName collector = (if collector = [] then None else Some (interface_name (last collector)))"

definition resolveSchema ::
    "(string \<Rightarrow> string \<Rightarrow> string) \<Rightarrow> Schema \<Rightarrow> (string \<times> Definition) list \<Rightarrow> string
       \<Rightarrow> Interface list \<times> string option" where
  "resolveSchema matchRefTypeName schema definitions defaultName =
     (if schema_type schema = Some ''array'' then
        (if truthy (Option.bind (schema_items schema) schema_ref) then
           (let collector = resolveInterface matchRefTypeName
                              (the (Option.bind (schema_items schema) schema_ref)) definitions [] True
            in (collector, lastName collector))
         else ([], javaTypeToTsKeyword schema))
      else
        (let collector =
               (if truthy (schema_ref schema)
                then resolveInterface matchRefTypeName (the (schema_ref schema)) definitions [] True
                else resolveProperties matchRefTypeName defaultName (Some schema) definitions [] True)
         in (collector, lastName collector)))"

fun parseOperationId :: "string \<Rightarrow> string" where
  "parseOperationId [] = []"
| "parseOperationId (c # cs) =
     (if prefix ''Using'' (c # cs) then [] else c # parseOperationId cs)"

text \<open>
  \<open>matchPathVars path\<close> is \<open>path.match(/\{(.+?)\}/g)?.map((d) => d.slice(1, -1)) || []\<close>:
  the matches are found from left to right without overlap; each is an opening brace, at
  least one character, none of them a line terminator, and the first closing brace after
  that character.
\<close>

fun braceRest :: "string \<Rightarrow> string \<Rightarrow> (string \<times> string) option" where
  "braceRest acc [] = None"
| "braceRest acc (c # cs) =
     (if c = CHR ''}'' then Some (acc, cs)
      else if lineTerminator c then None
      else braceRest (acc @ [c]) cs)"

definition braceBody :: "string \<Rightarrow> (string \<times> string) option" where
  "braceBody cs =
     (case cs of
        [] \<Rightarrow> None
      | c # cs' \<Rightarrow> if lineTerminator c then None else braceRest [c] cs')"

lemma braceRest_length:
  "braceRest acc cs = Some (v, rest) \<Longrightarrow> length rest < length cs"
  by (induction cs arbitrary: acc) (fastforce split: if_splits)+

lemma braceBody_length:
  "braceBody cs = Some (v, rest) \<Longrightarrow> length rest < length cs"
  by (auto simp: braceBody_def split: list.splits if_splits dest: braceRest_length)

function matchPathVars :: "string \<Rightarrow> string list" where
  "matchPathVars [] = []"
| "matchPathVars (c # cs) =
     (if c = CHR ''{'' then
        (case braceBody cs of
           None \<Rightarrow> matchPathVars cs
         | Some (v, rest) \<Rightarrow> v # matchPathVars rest)
      else matchPathVars cs)"
  by pat_completeness auto
termination
  by (relation "measure length") (auto dest: braceBody_length)

text \<open>
  \<open>pathParameters\<close> and \<open>queryParameters\<close> are the parameter lists that \<open>resolvePath\<close> and
  \<open>resolveQuery\<close> filter out of the operation.
\<close>

definition pathParameters :: "string list \<Rightarrow> RequestDefinitionV3 \<Rightarrow> ParameterV3 list" where
  "pathParameters pathVars definition =
     (case request_parameters definition of
        None \<Rightarrow> []
      | Some ps \<Rightarrow>
          filter (\<lambda>parameter. parameter_in parameter = ''path''
                                \<or> parameter_name parameter \<in> set pathVars) ps)"

definition queryParameters :: "string list \<Rightarrow> RequestDefinitionV3 \<Rightarrow> ParameterV3 list" where
  "queryParameters pathVars definition =
     (case request_parameters definition of
        None \<Rightarrow> []
      | Some ps \<Rightarrow>
          filter (\<lambda>parameter. parameter_in parameter = ''query''
                                \<and> parameter_name parameter \<notin> set pathVars) ps)"

text \<open>
  Modelled from the spec: \<open>toFirstUpperCase\<close> is imported from \<open>../utils\<close>, which is not
  among the sources. Section 8 of the specification gives its effect on an operation name
  (\<open>getPet\<close> becomes \<open>GetPet...\<close>): the first character is upper-cased, the rest is kept.
\<close>

definition toFirstUpperCase :: "string \<Rightarrow> string" where
  "toFirstUpperCase s =
     (case s of
        [] \<Rightarrow> []
      | c # cs \<Rightarrow>
          (case map_of (zip ''abcdefghijklmnopqrstuvwxyz'' ''ABCDEFGHIJKLMNOPQRSTUVWXYZ'') c of
             None \<Rightarrow> c # cs
           | Some u \<Rightarrow> u # cs))"

definition resolveQuery ::
    "(string \<Rightarrow> string \<Rightarrow> string) \<Rightarrow> string list \<Rightarrow> RequestDefinitionV3 \<Rightarrow> (string \<times> Definition) list
       \<Rightarrow> Interface list" where
  "resolveQuery matchRefTypeName pathVars definition definitions =
     (let name = parseOperationId (request_operationId definition)
      in resolveParameters matchRefTypeName (toFirstUpperCase name @ ''Query'')
           (queryParameters pathVars definition) definitions)"

definition resolvePath ::
    "(string \<Rightarrow> string \<Rightarrow> string) \<Rightarrow> string list \<Rightarrow> RequestDefinitionV3 \<Rightarrow> (string \<times> Definition) list
       \<Rightarrow> Interface list" where
  "resolvePath matchRefTypeName pathVars definition definitions =
     (let name = parseOperationId (request_operationId definition)
      in resolveParameters matchRefTypeName (toFirstUpperCase name @ ''PathVar'')
           (pathParameters pathVars definition) definitions)"

text \<open>
  Modelled from the spec: \<open>duplicate\<close> is imported from \<open>../utils\<close>, which is not among the
  sources. Section 4.6 of the specification says of it: deduplicate by name, keeping the
  first occurrence.
\<close>

primrec duplicateFrom :: "string list \<Rightarrow> Interface list \<Rightarrow> Interface list" where
  "duplicateFrom seen [] = []"
| "duplicateFrom seen (x # xs) =
     (if interface_name x \<in> set seen then duplicateFrom seen xs
      else x # duplicateFrom (interface_name x # seen) xs)"

definition duplicate :: "Interface list \<Rightarrow> Interface list" where
  "duplicate xs = duplicateFrom [] xs"

text \<open>
  \<open>firstSchema content\<close> is \<open>Object.values(content || {})[0]?.schema || {}\<close>, \<open>firstKey\<close>
  is \<open>Object.keys(content || {})[0]\<close>, and \<open>joinComment\<close> is
  \<open>[summary, description].filter(Boolean).join(', ')\<close>.
\<close>

definition firstSchema :: "(string \<times> MediaType) list option \<Rightarrow> Schema" where
  "firstSchema content =
     (case content of
        None \<Rightarrow> emptySchema
      | Some [] \<Rightarrow> emptySchema
      | Some ((mediaType, body) # _) \<Rightarrow>
          (case mediaType_schema body of None \<Rightarrow> emptySchema | Some s \<Rightarrow> s))"

definition firstKey :: "(string \<times> MediaType) list option \<Rightarrow> string option" where
  "firstKey content =
     (case content of
        None \<Rightarrow> None
      | Some [] \<Rightarrow> None
      | Some ((mediaType, body) # _) \<Rightarrow> Some mediaType)"

definition joinComment :: "string option \<Rightarrow> string option \<Rightarrow> string" where
  "joinComment s d =
     (if truthy s \<and> truthy d then the s @ '', '' @ the d
      else if truthy s then the s
      else if truthy d then the d
      else [])"

text \<open>
  The document is an ordinary object, as \<open>JSON.parse\<close> builds it, so a property read that
  finds no own key goes on to \<open>Object.prototype\<close>. \<open>objectPrototypeMembers\<close> are the
  string keys of that object (ECMAScript, Annex B included); read through an ordinary
  object each of them is truthy (a function, or \<open>Object.prototype\<close> itself for
  \<open>__proto__\<close>) and none is an operation. \<open>readProperty\<close> is the read \<open>object[key]\<close>.

  For \<open>definitions[...]\<close> in \<open>resolveInterface\<close> an inherited member behaves as an absent
  definition does, since it has no \<open>properties\<close>; \<open>map_of\<close> is kept there. In \<open>parser\<close> it
  does not: \<open>paths[path]?.[method]\<close> may yield an inherited member, which passes
  \<open>if (!definition) return\<close>, has no \<open>operationId\<close>, and makes \<open>parseOperationId\<close> throw.

  When \<open>path\<close> itself names a member of \<open>Object.prototype\<close>, the second read is made on a
  built-in object of the engine. What it yields there is an argument of the model
  (\<open>builtinMember member key\<close>): nothing or a falsy value, a truthy value, or an exception.
\<close>

datatype error = TypeError

datatype 'a property = OwnProperty 'a | InheritedMember string | NoProperty

datatype builtinRead = ReadsFalsy | ReadsTruthy | ReadThrows

definition objectPrototypeMembers :: "string list" where
  "objectPrototypeMembers =
     [''constructor'', ''__defineGetter__'', ''__defineSetter__'', ''hasOwnProperty'',
      ''__lookupGetter__'', ''__lookupSetter__'', ''isPrototypeOf'', ''propertyIsEnumerable'',
      ''toString'', ''valueOf'', ''__proto__'', ''toLocaleString'']"

definition readProperty :: "(string \<times> 'a) list \<Rightarrow> string \<Rightarrow> 'a property" where
  "readProperty object key =
     (case map_of object key of
        Some v \<Rightarrow> OwnProperty v
      | None \<Rightarrow> if key \<in> set objectPrototypeMembers then InheritedMember key else NoProperty)"

definition parser ::
    "(string \<Rightarrow> string \<Rightarrow> string) \<Rightarrow> (string \<Rightarrow> string \<Rightarrow> builtinRead) \<Rightarrow> SwaggerV3 \<Rightarrow> string \<Rightarrow> string
       \<Rightarrow> error + ParseResult option" where
  "parser matchRefTypeName builtinMember swaggerJSON path method =
     (let definitions = swagger_schemas swaggerJSON in
      case readProperty (swagger_paths swaggerJSON) path of
        NoProperty \<Rightarrow> Inr None
      | InheritedMember member \<Rightarrow>
          (case builtinMember member method of
             ReadsFalsy \<Rightarrow> Inr None
           | ReadsTruthy \<Rightarrow> Inl TypeError
           | ReadThrows \<Rightarrow> Inl TypeError)
      | OwnProperty operations \<Rightarrow>
          (case readProperty operations method of
             NoProperty \<Rightarrow> Inr None
           | InheritedMember member \<Rightarrow> Inl TypeError
           | OwnProperty definition \<Rightarrow>
               (let name = parseOperationId (request_operationId definition);
                    pathVars = matchPathVars path;
                    pathVarTypes = resolvePath matchRefTypeName pathVars definition definitions;
                    pathVar = lastName pathVarTypes;
                    queryTypes = resolveQuery matchRefTypeName pathVars definition definitions;
                    query = lastName queryTypes;
                    requestContent = Option.bind (request_requestBody definition) requestBody_content;
                    responseContent =
                      Option.bind (map_of (request_responses definition) ''200'') response_content
                in case resolveSchema matchRefTypeName (firstSchema requestContent) definitions
                          ''RequestBody'' of
                     (bodyTypes, body) \<Rightarrow>
                       (case resolveSchema matchRefTypeName (firstSchema responseContent) definitions
                               ''ResponseBody'' of
                          (resTypes, res) \<Rightarrow>
                            Inr (Some
                              \<lparr>result_name = name,
                               result_comment =
                                 joinComment (request_summary definition) (request_description definition),
                               result_body = body,
                               result_isFormData =
                                 (firstKey requestContent = Some ''multipart/form-data''),
                               result_pathVar = pathVar,
                               result_query = query,
                               result_res = res,
                               result_interfaces =
                                 duplicate (pathVarTypes @ queryTypes @ bodyTypes @ resTypes)\<rparr>)))))"

text \<open>
  Modelled from the spec: \<open>matchRefTypeName\<close> is imported from \<open>../utils\<close>, which is not
  among the sources; the resolvers above take it as an argument. Section 4.2 of the
  specification says of it: from a reference \<open><prefix><Name>\<close>, optionally followed by an
  array suffix, extract \<open><Name>\<close>. This instance is used wherever a concrete helper is needed.
\<close>

definition matchRefTypeName_spec :: "string \<Rightarrow> string \<Rightarrow> string" where
  "matchRefTypeName_spec pre ref =
     (if prefix pre ref then fst (splitSuffix (drop (length pre) ref))
      else fst (splitSuffix ref))"

section \<open>Shape of the collector after resolution\<close>

declare resolveInterface.simps [simp del]
declare resolveProperties.simps [simp del]

text \<open>
  \<open>rewriteItem\<close> names what the rewrite pass does to one field: the body it returns is the
  body it was given with every reference-typed field rewritten, whatever the collector.
\<close>

definition rewriteItem :: "(string \<Rightarrow> string \<Rightarrow> string) \<Rightarrow> Field \<Rightarrow> Field" where
  "rewriteItem m item =
     (if prefix definitionPrefix (field_type item)
      then item\<lparr>field_type := replaceType (m definitionPrefix (field_type item)) (field_type item)\<rparr>
      else item)"

lemma transformInterfaceBody_Cons:
  "transformInterfaceBody m (item # rest) defs coll mr =
     (rewriteItem m item
        # fst (transformInterfaceBody m rest defs
                (if prefix definitionPrefix (field_type item)
                 then resolveInterface m (fst (splitSuffix (field_type item))) defs coll mr
                 else coll) mr),
      snd (transformInterfaceBody m rest defs
             (if prefix definitionPrefix (field_type item)
              then resolveInterface m (fst (splitSuffix (field_type item))) defs coll mr
              else coll) mr))"
  by (simp add: rewriteItem_def Let_def split: prod.splits)

lemma transformInterfaceBody_fst:
  "fst (transformInterfaceBody m body defs coll mr) = map (rewriteItem m) body"
  by (induction body arbitrary: coll) (simp_all add: transformInterfaceBody_Cons del: transformInterfaceBody.simps(2))

lemma update_owner:
  "(new @ x # coll)[length (new @ x # coll) - Suc (length coll) := y] = new @ y # coll"
  by (simp add: list_update_append)

lemma nth_owner:
  "(new @ x # coll) ! (length (new @ x # coll) - Suc (length coll)) = x"
  by (simp add: nth_append)

lemma resolveProperties_None:
  "Option.bind d schema_properties = None \<Longrightarrow> resolveProperties m name d defs coll mr = coll"
  by (simp add: resolveProperties.simps)

lemma resolveProperties_Some:
  assumes "Option.bind d schema_properties = Some ps"
    and "snd (transformInterfaceBody m
               (propertyFields ps (case Option.bind d schema_required of None \<Rightarrow> [] | Some r \<Rightarrow> r) mr (map fst ps))
               defs
               (\<lparr>interface_name = name, interface_description = Option.bind d schema_description,
                 interface_fields =
                   propertyFields ps (case Option.bind d schema_required of None \<Rightarrow> [] | Some r \<Rightarrow> r) mr (map fst ps)\<rparr>
                # coll) mr)
          = new @ \<lparr>interface_name = name, interface_description = Option.bind d schema_description,
                 interface_fields =
                   propertyFields ps (case Option.bind d schema_required of None \<Rightarrow> [] | Some r \<Rightarrow> r) mr (map fst ps)\<rparr>
                # coll"
  shows "resolveProperties m name d defs coll mr
           = new @ \<lparr>interface_name = name, interface_description = Option.bind d schema_description,
                    interface_fields = map (rewriteItem m)
                      (propertyFields ps (case Option.bind d schema_required of None \<Rightarrow> [] | Some r \<Rightarrow> r) mr (map fst ps))\<rparr>
                 # coll"
proof -
  let ?body = "propertyFields ps (case Option.bind d schema_required of None \<Rightarrow> [] | Some r \<Rightarrow> r) mr (map fst ps)"
  let ?iface = "\<lparr>interface_name = name, interface_description = Option.bind d schema_description,
                 interface_fields = ?body\<rparr>"
  obtain b c where bc: "transformInterfaceBody m ?body defs (?iface # coll) mr = (b, c)"
    by (cases "transformInterfaceBody m ?body defs (?iface # coll) mr")
  have b: "b = map (rewriteItem m) ?body"
    using transformInterfaceBody_fst[of m ?body defs "?iface # coll" mr] bc by simp
  have c: "c = new @ ?iface # coll"
    using assms(2) bc by simp
  have "resolveProperties m name d defs coll mr
          = c[length c - Suc (length coll) := (c ! (length c - Suc (length coll)))\<lparr>interface_fields := b\<rparr>]"
    using assms(1) bc by (simp add: resolveProperties.simps Let_def)
  also have "\<dots> = new @ (?iface\<lparr>interface_fields := b\<rparr>) # coll"
    unfolding c nth_owner update_owner ..
  finally show ?thesis
    by (simp add: b)
qed

lemma collector_extends:
  "\<exists>new. resolveInterface m ref defs coll mr = new @ coll"
  "\<exists>new. resolveProperties m name d defs coll mr = new @ coll"
  "\<exists>new. snd (transformInterfaceBody m body defs coll mr) = new @ coll"
proof (induct m ref defs coll mr and m name d defs coll mr and m body defs coll mr
       rule: resolveInterface_resolveProperties_transformInterfaceBody.induct)
  case (1 m ref defs coll mr)
  then show ?case
    by (auto simp: resolveInterface.simps Let_def)
next
  case (2 m name d defs coll mr)
  show ?case
  proof (cases "Option.bind d schema_properties")
    case None
    then show ?thesis by (simp add: resolveProperties_None)
  next
    case (Some ps)
    from 2[OF Some refl refl refl] obtain new where
      "snd (transformInterfaceBody m
               (propertyFields ps (case Option.bind d schema_required of None \<Rightarrow> [] | Some r \<Rightarrow> r) mr (map fst ps))
               defs
               (\<lparr>interface_name = name, interface_description = Option.bind d schema_description,
                 interface_fields =
                   propertyFields ps (case Option.bind d schema_required of None \<Rightarrow> [] | Some r \<Rightarrow> r) mr (map fst ps)\<rparr>
                # coll) mr)
          = new @ \<lparr>interface_name = name, interface_description = Option.bind d schema_description,
                 interface_fields =
                   propertyFields ps (case Option.bind d schema_required of None \<Rightarrow> [] | Some r \<Rightarrow> r) mr (map fst ps)\<rparr>
                # coll"
      by blast
    from resolveProperties_Some[OF Some this] show ?thesis
      by (metis append.assoc append_Cons append_Nil)
  qed
next
  case (3 m defs coll mr)
  then show ?case by simp
next
  case (4 m item rest defs coll mr)
  show ?case
  proof (cases "prefix definitionPrefix (field_type item)")
    case True
    from 4(1)[OF True refl] obtain n1 where
      n1: "resolveInterface m (fst (splitSuffix (field_type item))) defs coll mr = n1 @ coll"
      by blast
    from 4(2)[OF True refl refl refl] obtain n2 where
      "snd (transformInterfaceBody m rest defs
             (resolveInterface m (fst (splitSuffix (field_type item))) defs coll mr) mr)
         = n2 @ resolveInterface m (fst (splitSuffix (field_type item))) defs coll mr"
      by blast
    with n1 True show ?thesis
      by (simp add: transformInterfaceBody_Cons del: transformInterfaceBody.simps(2))
  next
    case False
    with 4(3)[OF False] show ?thesis
      by (simp add: transformInterfaceBody_Cons del: transformInterfaceBody.simps(2))
  qed
qed

text \<open>
  \<open>definitionBody\<close> and \<open>definitionInterface\<close> name the body that \<open>resolveProperties\<close> builds
  for a definition and the interface it pushes. A call on a definition with properties
  returns the collector it was given, the interface in front of it, and the interfaces of
  the nested references in front of that.
\<close>

definition definitionBody :: "Definition option \<Rightarrow> bool \<Rightarrow> Field list" where
  "definitionBody d mr =
     (case Option.bind d schema_properties of
        None \<Rightarrow> []
      | Some ps \<Rightarrow>
          propertyFields ps (case Option.bind d schema_required of None \<Rightarrow> [] | Some r \<Rightarrow> r) mr (map fst ps))"

definition definitionInterface :: "string \<Rightarrow> Definition option \<Rightarrow> Field list \<Rightarrow> Interface" where
  "definitionInterface name d body =
     \<lparr>interface_name = name, interface_description = Option.bind d schema_description,
      interface_fields = body\<rparr>"

lemma resolveProperties_shape:
  assumes "Option.bind d schema_properties \<noteq> None"
  shows "\<exists>new.
           snd (transformInterfaceBody m (definitionBody d mr) defs
                  (definitionInterface name d (definitionBody d mr) # coll) mr)
             = new @ definitionInterface name d (definitionBody d mr) # coll
         \<and> resolveProperties m name d defs coll mr
             = new @ definitionInterface name d (map (rewriteItem m) (definitionBody d mr)) # coll"
proof -
  from assms obtain ps where ps: "Option.bind d schema_properties = Some ps"
    by blast
  have body: "definitionBody d mr
      = propertyFields ps (case Option.bind d schema_required of None \<Rightarrow> [] | Some r \<Rightarrow> r) mr (map fst ps)"
    by (simp add: definitionBody_def ps)
  obtain new where new:
    "snd (transformInterfaceBody m (definitionBody d mr) defs
            (definitionInterface name d (definitionBody d mr) # coll) mr)
       = new @ definitionInterface name d (definitionBody d mr) # coll"
    using collector_extends(3)[of m "definitionBody d mr" defs
            "definitionInterface name d (definitionBody d mr) # coll" mr]
    by (metis append.assoc append_Cons append_Nil)
  have "resolveProperties m name d defs coll mr
          = new @ definitionInterface name d (map (rewriteItem m) (definitionBody d mr)) # coll"
    using resolveProperties_Some[OF ps, of m mr defs name coll new] new
    unfolding body definitionInterface_def by blast
  with new show ?thesis by blast
qed

lemma resolveInterface_unfold:
  "resolveInterface m ref defs coll mr =
     (if ref = [] \<or> m definitionPrefix ref \<in> set (map interface_name coll) then coll
      else resolveProperties m (m definitionPrefix ref)
             (map_of defs (drop (length definitionPrefix) ref)) defs coll mr)"
  by (simp add: resolveInterface.simps Let_def)

lemma count_name_update:
  "count_list (map interface_name (xs[i := (xs ! i)\<lparr>interface_fields := b\<rparr>])) x
     = count_list (map interface_name xs) x"
  by (simp only: names_update_fields)

lemma names_count:
  "count_list (map interface_name coll) x \<le> 1
     \<Longrightarrow> count_list (map interface_name (resolveInterface m ref defs coll mr)) x \<le> 1"
  "count_list (map interface_name coll) x \<le> 1 \<Longrightarrow> (x = name \<Longrightarrow> name \<notin> set (map interface_name coll))
     \<Longrightarrow> count_list (map interface_name (resolveProperties m name d defs coll mr)) x \<le> 1"
  "count_list (map interface_name coll) x \<le> 1
     \<Longrightarrow> count_list (map interface_name (snd (transformInterfaceBody m body defs coll mr))) x \<le> 1"
proof (induct m ref defs coll mr and m name d defs coll mr and m body defs coll mr
       rule: resolveInterface_resolveProperties_transformInterfaceBody.induct)
  case (1 m ref defs coll mr)
  show ?case
  proof (cases "ref = [] \<or> m definitionPrefix ref \<in> set (map interface_name coll)")
    case True
    with 1(2) show ?thesis by (simp add: resolveInterface_unfold)
  next
    case False
    then have "count_list (map interface_name
                 (resolveProperties m (m definitionPrefix ref)
                    (map_of defs (drop (length definitionPrefix) ref)) defs coll mr)) x \<le> 1"
      using 1(1)[OF _ refl _ 1(2)] by blast
    with False show ?thesis by (simp add: resolveInterface_unfold)
  qed
next
  case (2 m name d defs coll mr)
  show ?case
  proof (cases "Option.bind d schema_properties")
    case None
    with 2(2) show ?thesis by (simp add: resolveProperties_None)
  next
    case (Some ps)
    let ?req = "case Option.bind d schema_required of None \<Rightarrow> [] | Some r \<Rightarrow> r"
    let ?body = "propertyFields ps ?req mr (map fst ps)"
    let ?iface = "\<lparr>interface_name = name, interface_description = Option.bind d schema_description,
                    interface_fields = ?body\<rparr>"
    have "count_list (map interface_name (?iface # coll)) x \<le> 1"
      using 2(2,3) by (cases "x = name") (simp_all add: count_list_0_iff)
    from 2(1)[OF Some refl refl refl this]
    have c: "count_list (map interface_name (snd (transformInterfaceBody m ?body defs (?iface # coll) mr))) x \<le> 1" .
    obtain b c where bc: "transformInterfaceBody m ?body defs (?iface # coll) mr = (b, c)"
      by (cases "transformInterfaceBody m ?body defs (?iface # coll) mr")
    have "resolveProperties m name d defs coll mr
        = c[length c - Suc (length coll) := (c ! (length c - Suc (length coll)))\<lparr>interface_fields := b\<rparr>]"
      using Some bc by (simp add: resolveProperties.simps Let_def)
    then show ?thesis
      using c bc by (simp only: count_name_update snd_conv)
  qed
next
  case (3 m defs coll mr)
  then show ?case by simp
next
  case (4 m item rest defs coll mr)
  show ?case
  proof (cases "prefix definitionPrefix (field_type item)")
    case True
    from 4(2)[OF True refl refl refl 4(1)[OF True refl 4(4)]] True show ?thesis
      by (simp add: transformInterfaceBody_Cons del: transformInterfaceBody.simps(2))
  next
    case False
    from 4(3)[OF False 4(4)] False show ?thesis
      by (simp add: transformInterfaceBody_Cons del: transformInterfaceBody.simps(2))
  qed
qed

lemma distinct_count_le:
  "distinct xs \<longleftrightarrow> (\<forall>x. count_list xs x \<le> 1)"
proof (induction xs)
  case Nil
  then show ?case by simp
next
  case (Cons a xs)
  show ?case
  proof
    assume d: "distinct (a # xs)"
    then have "count_list xs a = 0" by (simp add: count_list_0_iff)
    with d Cons show "\<forall>x. count_list (a # xs) x \<le> 1" by simp
  next
    assume c: "\<forall>x. count_list (a # xs) x \<le> 1"
    then have "count_list (a # xs) a \<le> 1" by blast
    then have "a \<notin> set xs" by (simp add: count_list_0_iff)
    moreover have "\<forall>x. count_list xs x \<le> 1"
    proof
      fix x
      from c have "count_list (a # xs) x \<le> 1" by blast
      then show "count_list xs x \<le> 1" by (simp split: if_splits)
    qed
    ultimately show "distinct (a # xs)" using Cons by simp
  qed
qed

lemma resolveInterface_distinct:
  "distinct (map interface_name coll) \<Longrightarrow> distinct (map interface_name (resolveInterface m ref defs coll mr))"
  unfolding distinct_count_le using names_count(1) by blast

lemma count_list_map_filter:
  "count_list (map f xs) y = length (filter (\<lambda>x. f x = y) xs)"
  by (induction xs) simp_all

lemma resolveInterface_present:
  "m definitionPrefix ref \<in> set (map interface_name coll) \<Longrightarrow> resolveInterface m ref defs coll mr = coll"
  by (simp add: resolveInterface_unfold)

lemma resolveInterface_registers:
  assumes "ref \<noteq> []"
    and "m definitionPrefix ref \<notin> set (map interface_name coll)"
    and "Option.bind (map_of defs (drop (length definitionPrefix) ref)) schema_properties \<noteq> None"
  shows "\<exists>new. resolveInterface m ref defs coll mr
           = new @ definitionInterface (m definitionPrefix ref)
                     (map_of defs (drop (length definitionPrefix) ref))
                     (map (rewriteItem m)
                        (definitionBody (map_of defs (drop (length definitionPrefix) ref)) mr)) # coll"
  using resolveProperties_shape[OF assms(3), of m mr defs "m definitionPrefix ref" coll] assms(1,2)
  by (auto simp: resolveInterface_unfold)

lemma resolveInterface_skips:
  assumes "ref = [] \<or> Option.bind (map_of defs (drop (length definitionPrefix) ref)) schema_properties = None"
  shows "resolveInterface m ref defs coll mr = coll"
  using assms by (auto simp: resolveInterface_unfold resolveProperties_None)

lemma resolveInterface_twice:
  "resolveInterface m ref defs (resolveInterface m ref defs coll mr) mr = resolveInterface m ref defs coll mr"
proof (cases "ref = [] \<or> Option.bind (map_of defs (drop (length definitionPrefix) ref)) schema_properties = None")
  case True
  then show ?thesis by (simp only: resolveInterface_skips)
next
  case False
  show ?thesis
  proof (cases "m definitionPrefix ref \<in> set (map interface_name coll)")
    case True
    then show ?thesis by (simp only: resolveInterface_present)
  next
    case False
    with \<open>\<not> (ref = [] \<or> _)\<close> obtain new where
      "resolveInterface m ref defs coll mr
         = new @ definitionInterface (m definitionPrefix ref)
                   (map_of defs (drop (length definitionPrefix) ref))
                   (map (rewriteItem m)
                      (definitionBody (map_of defs (drop (length definitionPrefix) ref)) mr)) # coll"
      using resolveInterface_registers[of ref m coll defs mr] by blast
    then have "m definitionPrefix ref \<in> set (map interface_name (resolveInterface m ref defs coll mr))"
      by (simp add: definitionInterface_def)
    then show ?thesis by (rule resolveInterface_present)
  qed
qed

lemma resolveInterface_repeat_count:
  "count_list (map interface_name coll) x \<le> 1
     \<Longrightarrow> count_list (map interface_name (((\<lambda>c. resolveInterface m ref defs c mr) ^^ n) coll)) x \<le> 1"
proof (induction n)
  case 0
  then show ?case by simp
next
  case (Suc n)
  from names_count(1)[OF Suc.IH[OF Suc.prems]] show ?case
    by (simp only: funpow.simps o_apply)
qed

section \<open>Example documents\<close>

definition refSchema :: "string \<Rightarrow> Schema" where
  "refSchema r = Schema None None None (Some r) None None None"

definition typeSchema :: "string \<Rightarrow> Schema" where
  "typeSchema t = Schema (Some t) None None None None None None"

definition objectSchema :: "(string \<times> Schema) list \<Rightarrow> string list option \<Rightarrow> Schema" where
  "objectSchema ps req = Schema None None None None None (Some ps) req"

definition cyclicDefinitions :: "(string \<times> Definition) list" where
  "cyclicDefinitions =
     [(''A'', objectSchema [(''b'', refSchema ''#/components/schemas/B'')] None),
      (''B'', objectSchema [(''a'', refSchema ''#/components/schemas/A'')] None)]"

section \<open>Claims\<close>

text \<open>
  C8. For every finite definitions table, cyclic or not, reference resolution terminates
  and produces no duplicate interfaces. The first conjunct is termination itself: the call
  \<open>resolveInterface m ref defs coll mr\<close> lies in the well-founded part of the call graph of
  the three mutually recursive resolvers, whatever the table, the collector and the helper
  \<open>matchRefTypeName\<close> are. The second conjunct says that a collector without duplicate names
  is returned without duplicate names.
\<close>

theorem resolution_terminates_without_duplicates:
  "resolveInterface_resolveProperties_transformInterfaceBody_dom (Inl (m, ref, defs, coll, mr))
   \<and> (distinct (map interface_name coll)
        \<longrightarrow> distinct (map interface_name (resolveInterface m ref defs coll mr)))"
proof
  show "resolveInterface_resolveProperties_transformInterfaceBody_dom (Inl (m, ref, defs, coll, mr))"
    using resolve_total by blast
  show "distinct (map interface_name coll)
          \<longrightarrow> distinct (map interface_name (resolveInterface m ref defs coll mr))"
    by (simp add: resolveInterface_distinct)
qed

theorem resolution_terminates_without_duplicates_witness:
  "distinct (map interface_name ([] :: Interface list))
   \<and> resolveInterface_resolveProperties_transformInterfaceBody_dom
        (Inl (matchRefTypeName_spec, ''#/components/schemas/A'', cyclicDefinitions, [], True))
   \<and> distinct (map interface_name
        (resolveInterface matchRefTypeName_spec ''#/components/schemas/A'' cyclicDefinitions [] True))
   \<and> map interface_name
        (resolveInterface matchRefTypeName_spec ''#/components/schemas/A'' cyclicDefinitions [] True)
       = [''B'', ''A'']"
proof -
  note inst = resolution_terminates_without_duplicates
    [where m = matchRefTypeName_spec and ref = "''#/components/schemas/A''"
       and defs = cyclicDefinitions and coll = "[]" and mr = True]
  have h: "distinct (map interface_name ([] :: Interface list))"
    by simp
  have d: "distinct (map interface_name
        (resolveInterface matchRefTypeName_spec ''#/components/schemas/A'' cyclicDefinitions [] True))"
    by (rule mp[OF conjunct2[OF inst] h])
  have e: "map interface_name
        (resolveInterface matchRefTypeName_spec ''#/components/schemas/A'' cyclicDefinitions [] True)
       = [''B'', ''A'']"
    by code_simp
  from h conjunct1[OF inst] d e show ?thesis
    by (intro conjI)
qed

definition clashDefinitions :: "(string \<times> Definition) list" where
  "clashDefinitions = [(''GetPetQuery'', objectSchema [(''limit'', typeSchema ''integer'')] None)]"

definition clashOperation :: RequestDefinitionV3 where
  "clashOperation =
     \<lparr>request_operationId = ''getPetUsingGET'', request_summary = None, request_description = None,
      request_parameters =
        Some [\<lparr>parameter_name = ''filter'', parameter_in = ''query'', parameter_required = None,
               parameter_description = None,
               parameter_schema = Some (refSchema ''#/components/schemas/GetPetQuery'')\<rparr>],
      request_requestBody = None,
      request_responses = []\<rparr>"

text \<open>
  C1, as stated for every collector, fails. \<open>resolveParameters\<close> resolves the reference of a
  parameter into its collector, then pushes its own interface without looking at the names
  already there, then resolves the same reference again in the rewrite pass. For an
  operation \<open>getPet\<close> with a query parameter that refers to a definition \<open>GetPetQuery\<close>, the
  collector of \<open>resolveQuery\<close> holds two interfaces of that name, and a further call of
  \<open>resolveInterface\<close> on the reference leaves both.
\<close>

theorem resolveInterface_at_most_one_counterexample:
  "map interface_name (resolveQuery matchRefTypeName_spec [] clashOperation clashDefinitions)
     = [''GetPetQuery'', ''GetPetQuery'']
   \<and> matchRefTypeName_spec definitionPrefix ''#/components/schemas/GetPetQuery'' = ''GetPetQuery''
   \<and> length (filter (\<lambda>i. interface_name i
                            = matchRefTypeName_spec definitionPrefix ''#/components/schemas/GetPetQuery'')
        (resolveInterface matchRefTypeName_spec ''#/components/schemas/GetPetQuery'' clashDefinitions
           (resolveQuery matchRefTypeName_spec [] clashOperation clashDefinitions) True))
       = 2"
proof -
  have a: "map interface_name (resolveQuery matchRefTypeName_spec [] clashOperation clashDefinitions)
     = [''GetPetQuery'', ''GetPetQuery'']"
    by code_simp
  have b: "matchRefTypeName_spec definitionPrefix ''#/components/schemas/GetPetQuery'' = ''GetPetQuery''"
    by code_simp
  have c: "length (filter (\<lambda>i. interface_name i
                            = matchRefTypeName_spec definitionPrefix ''#/components/schemas/GetPetQuery'')
        (resolveInterface matchRefTypeName_spec ''#/components/schemas/GetPetQuery'' clashDefinitions
           (resolveQuery matchRefTypeName_spec [] clashOperation clashDefinitions) True))
       = 2"
    by code_simp
  show ?thesis
    by (rule conjI[OF a conjI[OF b c]])
qed

text \<open>
  C1, amended. Resolving the same reference \<open>R\<close> any number of times against a collector
  that holds at most one interface named after \<open>R\<close> leaves at most one such interface;
  whatever the collector, a call is a no-op once that name is present, and a second call
  never changes what the first call returned.
\<close>

theorem resolveInterface_idempotent:
  "(length (filter (\<lambda>i. interface_name i = m definitionPrefix R) coll) \<le> 1
      \<longrightarrow> length (filter (\<lambda>i. interface_name i = m definitionPrefix R)
                    (((\<lambda>c. resolveInterface m R defs c mr) ^^ n) coll)) \<le> 1)
   \<and> (m definitionPrefix R \<in> set (map interface_name coll)
        \<longrightarrow> resolveInterface m R defs coll mr = coll)
   \<and> resolveInterface m R defs (resolveInterface m R defs coll mr) mr
       = resolveInterface m R defs coll mr"
proof (intro conjI impI)
  assume "length (filter (\<lambda>i. interface_name i = m definitionPrefix R) coll) \<le> 1"
  then have "count_list (map interface_name coll) (m definitionPrefix R) \<le> 1"
    by (simp only: count_list_map_filter)
  then have "count_list (map interface_name (((\<lambda>c. resolveInterface m R defs c mr) ^^ n) coll))
               (m definitionPrefix R) \<le> 1"
    by (rule resolveInterface_repeat_count)
  then show "length (filter (\<lambda>i. interface_name i = m definitionPrefix R)
                    (((\<lambda>c. resolveInterface m R defs c mr) ^^ n) coll)) \<le> 1"
    by (simp only: count_list_map_filter)
next
  assume "m definitionPrefix R \<in> set (map interface_name coll)"
  then show "resolveInterface m R defs coll mr = coll"
    by (rule resolveInterface_present)
next
  show "resolveInterface m R defs (resolveInterface m R defs coll mr) mr
          = resolveInterface m R defs coll mr"
    by (rule resolveInterface_twice)
qed

theorem resolveInterface_idempotent_witness:
  "length (filter (\<lambda>i. interface_name i = matchRefTypeName_spec definitionPrefix ''#/components/schemas/A'')
             ([] :: Interface list)) \<le> 1
   \<and> length (filter (\<lambda>i. interface_name i = matchRefTypeName_spec definitionPrefix ''#/components/schemas/A'')
        (((\<lambda>c. resolveInterface matchRefTypeName_spec ''#/components/schemas/A'' cyclicDefinitions c True) ^^ 3)
           [])) \<le> 1
   \<and> matchRefTypeName_spec definitionPrefix ''#/components/schemas/A''
        \<in> set (map interface_name
              (resolveInterface matchRefTypeName_spec ''#/components/schemas/A'' cyclicDefinitions [] True))
   \<and> resolveInterface matchRefTypeName_spec ''#/components/schemas/A'' cyclicDefinitions
         (resolveInterface matchRefTypeName_spec ''#/components/schemas/A'' cyclicDefinitions [] True) True
       = resolveInterface matchRefTypeName_spec ''#/components/schemas/A'' cyclicDefinitions [] True"
proof -
  let ?R = "''#/components/schemas/A''"
  let ?c1 = "resolveInterface matchRefTypeName_spec ?R cyclicDefinitions [] True"
  note first = resolveInterface_idempotent
    [where m = matchRefTypeName_spec and R = ?R and coll = "[]" and defs = cyclicDefinitions
       and mr = True and n = 3]
  note again = resolveInterface_idempotent
    [where m = matchRefTypeName_spec and R = ?R and coll = ?c1 and defs = cyclicDefinitions
       and mr = True and n = 0]
  have h1: "length (filter (\<lambda>i. interface_name i = matchRefTypeName_spec definitionPrefix ?R)
              ([] :: Interface list)) \<le> 1"
    by simp
  have h2: "matchRefTypeName_spec definitionPrefix ?R \<in> set (map interface_name ?c1)"
    by code_simp
  have a: "length (filter (\<lambda>i. interface_name i = matchRefTypeName_spec definitionPrefix ?R)
        (((\<lambda>c. resolveInterface matchRefTypeName_spec ?R cyclicDefinitions c True) ^^ 3) [])) \<le> 1"
    by (rule mp[OF conjunct1[OF first] h1])
  have b: "resolveInterface matchRefTypeName_spec ?R cyclicDefinitions ?c1 True = ?c1"
    by (rule mp[OF conjunct1[OF conjunct2[OF again]] h2])
  from h1 a h2 b show ?thesis
    by (intro conjI)
qed

lemma propertyFields_optional:
  "f \<in> set (propertyFields ps req mr ks)
     \<Longrightarrow> (\<not> field_optional f) = (mr \<and> field_name f \<in> set req)"
  by (induction ks) (auto simp: Let_def split: option.splits if_splits)

lemma rewriteItem_keeps:
  "field_name (rewriteItem m item) = field_name item"
  "field_optional (rewriteItem m item) = field_optional item"
  by (simp_all add: rewriteItem_def)

text \<open>
  C5. A field built by the Property Resolver is non-optional exactly when \<open>markRequired\<close>
  is true and the field's name is in the definition's \<open>required\<close> array. This holds of
  the fields as the loop over the properties builds them, and of the fields of the interface
  that \<open>resolveProperties\<close> registers in front of the collector it was given (the rewrite
  pass changes types only).
\<close>

theorem property_optionality:
  "(\<forall>f \<in> set (propertyFields ps req mr ks).
       (\<not> field_optional f) = (mr \<and> field_name f \<in> set req))
   \<and> (schema_properties d = Some props \<longrightarrow>
        (\<exists>new fs.
           resolveProperties m name (Some d) defs coll mr
             = new @ \<lparr>interface_name = name, interface_description = schema_description d,
                       interface_fields = fs\<rparr> # coll
           \<and> (\<forall>f \<in> set fs.
                 (\<not> field_optional f)
                   = (mr \<and> field_name f \<in> set (case schema_required d of None \<Rightarrow> [] | Some r \<Rightarrow> r)))))"
proof (intro conjI impI ballI)
  fix f
  assume "f \<in> set (propertyFields ps req mr ks)"
  then show "(\<not> field_optional f) = (mr \<and> field_name f \<in> set req)"
    by (rule propertyFields_optional)
next
  assume props: "schema_properties d = Some props"
  let ?req = "case schema_required d of None \<Rightarrow> [] | Some r \<Rightarrow> r"
  let ?fs = "map (rewriteItem m) (definitionBody (Some d) mr)"
  have body: "definitionBody (Some d) mr = propertyFields props ?req mr (map fst props)"
    by (simp add: definitionBody_def props)
  from props have "Option.bind (Some d) schema_properties \<noteq> None"
    by simp
  from resolveProperties_shape[OF this, of m mr defs name coll] obtain new where
    "resolveProperties m name (Some d) defs coll mr
       = new @ definitionInterface name (Some d) ?fs # coll"
    by blast
  then have shape: "resolveProperties m name (Some d) defs coll mr
       = new @ \<lparr>interface_name = name, interface_description = schema_description d,
                 interface_fields = ?fs\<rparr> # coll"
    by (simp add: definitionInterface_def)
  have "\<forall>f \<in> set ?fs. (\<not> field_optional f) = (mr \<and> field_name f \<in> set ?req)"
    unfolding body using propertyFields_optional[of _ props ?req mr "map fst props"]
    by (auto simp: rewriteItem_keeps)
  with shape show "\<exists>new fs.
           resolveProperties m name (Some d) defs coll mr
             = new @ \<lparr>interface_name = name, interface_description = schema_description d,
                       interface_fields = fs\<rparr> # coll
           \<and> (\<forall>f \<in> set fs. (\<not> field_optional f) = (mr \<and> field_name f \<in> set ?req))"
    by blast
qed

definition petDefinition :: Definition where
  "petDefinition =
     objectSchema [(''name'', typeSchema ''string''), (''age'', typeSchema ''integer'')] (Some [''name''])"

theorem property_optionality_witness:
  "\<lparr>field_name = ''name'', field_optional = False, field_type = ''string'',
      field_description = None, field_format = None\<rparr>
     \<in> set (propertyFields [(''name'', typeSchema ''string''), (''age'', typeSchema ''integer'')]
               [''name''] True [''name'', ''age''])
   \<and> (\<not> field_optional \<lparr>field_name = ''name'', field_optional = False, field_type = ''string'',
                            field_description = None, field_format = None\<rparr>)
       = (True \<and> field_name \<lparr>field_name = ''name'', field_optional = False, field_type = ''string'',
                               field_description = None, field_format = None\<rparr> \<in> set [''name''])
   \<and> \<lparr>field_name = ''age'', field_optional = True, field_type = ''number'',
        field_description = None, field_format = None\<rparr>
     \<in> set (propertyFields [(''name'', typeSchema ''string''), (''age'', typeSchema ''integer'')]
               [''name''] True [''name'', ''age''])
   \<and> (\<not> field_optional \<lparr>field_name = ''age'', field_optional = True, field_type = ''number'',
                            field_description = None, field_format = None\<rparr>)
       = (True \<and> field_name \<lparr>field_name = ''age'', field_optional = True, field_type = ''number'',
                               field_description = None, field_format = None\<rparr> \<in> set [''name''])
   \<and> schema_properties petDefinition
       = Some [(''name'', typeSchema ''string''), (''age'', typeSchema ''integer'')]
   \<and> (\<exists>new fs.
         resolveProperties matchRefTypeName_spec ''Pet'' (Some petDefinition) [] [] True
           = new @ \<lparr>interface_name = ''Pet'', interface_description = schema_description petDefinition,
                     interface_fields = fs\<rparr> # []
         \<and> (\<forall>f \<in> set fs.
               (\<not> field_optional f)
                 = (True \<and> field_name f
                      \<in> set (case schema_required petDefinition of None \<Rightarrow> [] | Some r \<Rightarrow> r))))
   \<and> map (\<lambda>f. (field_name f, field_optional f))
         (interface_fields (hd (resolveProperties matchRefTypeName_spec ''Pet'' (Some petDefinition) [] [] True)))
       = [(''name'', False), (''age'', True)]"
proof -
  let ?ps = "[(''name'', typeSchema ''string''), (''age'', typeSchema ''integer'')]"
  let ?n = "\<lparr>field_name = ''name'', field_optional = False, field_type = ''string'',
      field_description = None, field_format = None\<rparr>"
  let ?a = "\<lparr>field_name = ''age'', field_optional = True, field_type = ''number'',
        field_description = None, field_format = None\<rparr>"
  note inst = property_optionality
    [where ps = ?ps and req = "[''name'']" and mr = True and ks = "[''name'', ''age'']"
       and d = petDefinition and props = ?ps and m = matchRefTypeName_spec and name = "''Pet''"
       and defs = "[]" and coll = "[]"]
  have n: "?n \<in> set (propertyFields ?ps [''name''] True [''name'', ''age''])"
    by (simp add: typeSchema_def truthy_def)
  have a: "?a \<in> set (propertyFields ?ps [''name''] True [''name'', ''age''])"
    by (simp add: typeSchema_def truthy_def)
  note rn = bspec[OF conjunct1[OF inst] n]
  note ra = bspec[OF conjunct1[OF inst] a]
  have e: "map (\<lambda>f. (field_name f, field_optional f))
         (interface_fields (hd (resolveProperties matchRefTypeName_spec ''Pet'' (Some petDefinition) [] [] True)))
       = [(''name'', False), (''age'', True)]"
    by code_simp
  have p: "schema_properties petDefinition = Some ?ps"
    by (simp add: petDefinition_def objectSchema_def)
  note reg = mp[OF conjunct2[OF inst] p]
  show ?thesis
    by (rule conjI[OF n conjI[OF rn conjI[OF a conjI[OF ra conjI[OF p conjI[OF reg e]]]]]])
qed

text \<open>
  \<open>parameterField\<close> names the field that the loop of \<open>resolveParameters\<close> pushes for a
  representable parameter.
\<close>

definition parameterField :: "ParameterV3 \<Rightarrow> Field" where
  "parameterField parameter =
     \<lparr>field_name = parameter_name parameter,
      field_optional = (parameter_required parameter \<noteq> Some True),
      field_type = the (parameterKeyword parameter),
      field_description = parameter_description parameter,
      field_format = Option.bind (parameter_schema parameter) schema_format\<rparr>"

lemma parametersLoop_fields:
  "snd (parametersLoop m ps defs coll body)
     = body @ map parameterField (filter (\<lambda>p. truthy (parameterKeyword p)) ps)"
proof (induction ps arbitrary: coll body)
  case Nil
  then show ?case by simp
next
  case (Cons p ps)
  show ?case
  proof (cases "parameterKeyword p")
    case None
    then show ?thesis
      by (simp add: Cons.IH Let_def truthy_def)
  next
    case (Some t)
    then show ?thesis
      by (cases "t = []") (simp_all add: Cons.IH Let_def truthy_def parameterField_def)
  qed
qed

lemma parametersLoop_extends:
  "\<exists>new. fst (parametersLoop m ps defs coll body) = new @ coll"
proof (induction ps arbitrary: coll body)
  case Nil
  then show ?case by simp
next
  case (Cons p ps)
  let ?c = "case Option.bind (parameter_schema p) schema_ref of
              None \<Rightarrow> coll
            | Some ref \<Rightarrow> if ref = [] then coll else resolveInterface m ref defs coll True"
  have "\<exists>n1. ?c = n1 @ coll"
  proof (cases "Option.bind (parameter_schema p) schema_ref")
    case None
    then show ?thesis by simp
  next
    case (Some ref)
    show ?thesis
    proof (cases "ref = []")
      case True
      with Some show ?thesis by simp
    next
      case False
      with Some collector_extends(1)[of m ref defs coll True] show ?thesis by simp
    qed
  qed
  then obtain n1 where n1: "?c = n1 @ coll"
    by blast
  have "\<exists>b. fst (parametersLoop m (p # ps) defs coll body) = fst (parametersLoop m ps defs ?c b)"
    by (cases "parameterKeyword p") (auto simp: Let_def)
  then obtain b where "fst (parametersLoop m (p # ps) defs coll body) = fst (parametersLoop m ps defs ?c b)"
    by blast
  moreover obtain n2 where "fst (parametersLoop m ps defs ?c b) = n2 @ ?c"
    using Cons.IH by blast
  ultimately show ?case
    using n1 by (metis append.assoc)
qed

lemma resolveParameters_shape:
  assumes "snd (parametersLoop m ps defs [] []) \<noteq> []"
  shows "\<exists>new. resolveParameters m nm ps defs
           = new @ \<lparr>interface_name = nm, interface_description = None,
                     interface_fields = map (rewriteItem m) (snd (parametersLoop m ps defs [] []))\<rparr>
                 # fst (parametersLoop m ps defs [] [])"
proof -
  obtain c body where cb: "parametersLoop m ps defs [] [] = (c, body)"
    by (cases "parametersLoop m ps defs [] []")
  with assms have ne: "body \<noteq> []" by simp
  let ?iface = "\<lparr>interface_name = nm, interface_description = None, interface_fields = body\<rparr>"
  obtain b c' where bc: "transformInterfaceBody m body defs (?iface # c) True = (b, c')"
    by (cases "transformInterfaceBody m body defs (?iface # c) True")
  have b: "b = map (rewriteItem m) body"
    using transformInterfaceBody_fst[of m body defs "?iface # c" True] bc by simp
  obtain new where c': "c' = new @ ?iface # c"
    using collector_extends(3)[of m body defs "?iface # c" True] bc
    by auto
  have "resolveParameters m nm ps defs
          = c'[length c' - Suc (length c) := (c' ! (length c' - Suc (length c)))\<lparr>interface_fields := b\<rparr>]"
    using cb ne bc by (simp add: resolveParameters_def Let_def)
  also have "\<dots> = new @ (?iface\<lparr>interface_fields := b\<rparr>) # c"
    unfolding c' nth_owner update_owner ..
  finally show ?thesis
    using cb b by simp
qed

text \<open>
  C10. A field built by the Parameter Resolver is optional exactly when the parameter's own
  \<open>required\<close> flag is not true. The loop takes neither a \<open>markRequired\<close> flag nor a
  \<open>required\<close> list: the fields it builds are, in order, one per representable parameter,
  named after the parameter, and the interface that \<open>resolveParameters\<close> registers carries
  the same names and flags.
\<close>

theorem parameter_optionality:
  "map (\<lambda>f. (field_name f, field_optional f)) (snd (parametersLoop m ps defs [] []))
     = map (\<lambda>p. (parameter_name p, parameter_required p \<noteq> Some True))
         (filter (\<lambda>p. truthy (parameterKeyword p)) ps)
   \<and> (filter (\<lambda>p. truthy (parameterKeyword p)) ps \<noteq> [] \<longrightarrow>
        (\<exists>new fs.
           resolveParameters m nm ps defs
             = new @ \<lparr>interface_name = nm, interface_description = None, interface_fields = fs\<rparr>
                   # fst (parametersLoop m ps defs [] [])
           \<and> map (\<lambda>f. (field_name f, field_optional f)) fs
               = map (\<lambda>p. (parameter_name p, parameter_required p \<noteq> Some True))
                   (filter (\<lambda>p. truthy (parameterKeyword p)) ps)))"
proof (intro conjI impI)
  show built: "map (\<lambda>f. (field_name f, field_optional f)) (snd (parametersLoop m ps defs [] []))
     = map (\<lambda>p. (parameter_name p, parameter_required p \<noteq> Some True))
         (filter (\<lambda>p. truthy (parameterKeyword p)) ps)"
    by (simp add: parametersLoop_fields parameterField_def o_def)
  assume "filter (\<lambda>p. truthy (parameterKeyword p)) ps \<noteq> []"
  then have "snd (parametersLoop m ps defs [] []) \<noteq> []"
    by (simp add: parametersLoop_fields)
  from resolveParameters_shape[OF this, of nm] obtain new where
    "resolveParameters m nm ps defs
           = new @ \<lparr>interface_name = nm, interface_description = None,
                     interface_fields = map (rewriteItem m) (snd (parametersLoop m ps defs [] []))\<rparr>
                 # fst (parametersLoop m ps defs [] [])"
    by blast
  moreover have "map (\<lambda>f. (field_name f, field_optional f))
                   (map (rewriteItem m) (snd (parametersLoop m ps defs [] [])))
                 = map (\<lambda>p. (parameter_name p, parameter_required p \<noteq> Some True))
                     (filter (\<lambda>p. truthy (parameterKeyword p)) ps)"
    using built by (simp add: o_def rewriteItem_keeps)
  ultimately show "\<exists>new fs.
           resolveParameters m nm ps defs
             = new @ \<lparr>interface_name = nm, interface_description = None, interface_fields = fs\<rparr>
                   # fst (parametersLoop m ps defs [] [])
           \<and> map (\<lambda>f. (field_name f, field_optional f)) fs
               = map (\<lambda>p. (parameter_name p, parameter_required p \<noteq> Some True))
                   (filter (\<lambda>p. truthy (parameterKeyword p)) ps)"
    by blast
qed

definition exampleParameters :: "ParameterV3 list" where
  "exampleParameters =
     [\<lparr>parameter_name = ''id'', parameter_in = ''query'', parameter_required = Some True,
       parameter_description = None, parameter_schema = Some (typeSchema ''integer'')\<rparr>,
      \<lparr>parameter_name = ''q'', parameter_in = ''query'', parameter_required = None,
       parameter_description = None, parameter_schema = Some (typeSchema ''string'')\<rparr>,
      \<lparr>parameter_name = ''r'', parameter_in = ''query'', parameter_required = Some False,
       parameter_description = None, parameter_schema = Some (typeSchema ''boolean'')\<rparr>,
      \<lparr>parameter_name = ''s'', parameter_in = ''query'', parameter_required = Some True,
       parameter_description = None, parameter_schema = None\<rparr>]"

theorem parameter_optionality_witness:
  "map (\<lambda>f. (field_name f, field_optional f))
     (snd (parametersLoop matchRefTypeName_spec exampleParameters [] [] []))
     = map (\<lambda>p. (parameter_name p, parameter_required p \<noteq> Some True))
         (filter (\<lambda>p. truthy (parameterKeyword p)) exampleParameters)
   \<and> filter (\<lambda>p. truthy (parameterKeyword p)) exampleParameters \<noteq> []
   \<and> (\<exists>new fs.
         resolveParameters matchRefTypeName_spec ''GetPetQuery'' exampleParameters []
           = new @ \<lparr>interface_name = ''GetPetQuery'', interface_description = None,
                     interface_fields = fs\<rparr>
                 # fst (parametersLoop matchRefTypeName_spec exampleParameters [] [] [])
         \<and> map (\<lambda>f. (field_name f, field_optional f)) fs
             = map (\<lambda>p. (parameter_name p, parameter_required p \<noteq> Some True))
                 (filter (\<lambda>p. truthy (parameterKeyword p)) exampleParameters))
   \<and> map (\<lambda>p. (parameter_name p, parameter_required p \<noteq> Some True))
         (filter (\<lambda>p. truthy (parameterKeyword p)) exampleParameters)
       = [(''id'', False), (''q'', True), (''r'', True)]"
proof -
  note inst = parameter_optionality
    [where m = matchRefTypeName_spec and ps = exampleParameters and defs = "[]"
       and nm = "''GetPetQuery''"]
  have e: "map (\<lambda>p. (parameter_name p, parameter_required p \<noteq> Some True))
         (filter (\<lambda>p. truthy (parameterKeyword p)) exampleParameters)
       = [(''id'', False), (''q'', True), (''r'', True)]"
    by (simp add: exampleParameters_def parameterKeyword_def typeSchema_def truthy_def)
  have h: "filter (\<lambda>p. truthy (parameterKeyword p)) exampleParameters \<noteq> []"
    using arg_cong[OF e, of length] by auto
  show ?thesis
    by (rule conjI[OF conjunct1[OF inst] conjI[OF h conjI[OF mp[OF conjunct2[OF inst] h] e]]])
qed

lemma parametersLoop_names:
  "field_name ` set (snd (parametersLoop m ps defs [] []))
     = parameter_name ` {p \<in> set ps. truthy (parameterKeyword p)}"
  by (auto simp: parametersLoop_fields parameterField_def image_iff)

lemma resolveParameters_empty:
  assumes "snd (parametersLoop m ps defs [] []) = []"
  shows "resolveParameters m nm ps defs = fst (parametersLoop m ps defs [] [])"
proof -
  obtain c body where cb: "parametersLoop m ps defs [] [] = (c, body)"
    by (cases "parametersLoop m ps defs [] []")
  with assms have "body = []" by simp
  with cb show ?thesis
    by (simp add: resolveParameters_def)
qed

definition exampleOperation :: RequestDefinitionV3 where
  "exampleOperation =
     \<lparr>request_operationId = ''getPetUsingGET'', request_summary = Some ''Find a pet'',
      request_description = None, request_parameters = Some exampleParameters,
      request_requestBody = None,
      request_responses =
        [(''200'', \<lparr>response_content =
            Some [(''application/json'',
                   \<lparr>mediaType_schema = Some (refSchema ''#/components/schemas/Pet'')\<rparr>)]\<rparr>)]\<rparr>"

definition unschemedParameter :: ParameterV3 where
  "unschemedParameter =
     \<lparr>parameter_name = ''id'', parameter_in = ''query'', parameter_required = Some True,
      parameter_description = None, parameter_schema = None\<rparr>"

definition unschemedOperation :: RequestDefinitionV3 where
  "unschemedOperation =
     \<lparr>request_operationId = ''getPetUsingGET'', request_summary = None, request_description = None,
      request_parameters = Some [unschemedParameter],
      request_requestBody = None,
      request_responses = []\<rparr>"

text \<open>
  C9, as stated for every such parameter, fails. A parameter named after the brace segment
  \<open>{id}\<close> but without a schema passes the path filter and is then dropped by the Parameter
  Resolver, which finds no type for it: no path-variable interface is registered at all.
\<close>

theorem brace_parameter_without_schema_counterexample:
  "request_parameters unschemedOperation = Some [unschemedParameter]
   \<and> parameter_name unschemedParameter \<in> set (matchPathVars ''/pets/{id}'')
   \<and> unschemedParameter \<in> set (pathParameters (matchPathVars ''/pets/{id}'') unschemedOperation)
   \<and> resolvePath matchRefTypeName_spec (matchPathVars ''/pets/{id}'') unschemedOperation [] = []"
proof -
  have a: "request_parameters unschemedOperation = Some [unschemedParameter]"
    by (simp add: unschemedOperation_def)
  have b: "parameter_name unschemedParameter \<in> set (matchPathVars ''/pets/{id}'')"
    by code_simp
  have c: "unschemedParameter \<in> set (pathParameters (matchPathVars ''/pets/{id}'') unschemedOperation)"
    using b by (simp add: pathParameters_def unschemedOperation_def)
  have d: "resolvePath matchRefTypeName_spec (matchPathVars ''/pets/{id}'') unschemedOperation [] = []"
    by code_simp
  show ?thesis
    by (rule conjI[OF a conjI[OF b conjI[OF c d]]])
qed

text \<open>
  C9, amended. A parameter whose name is a \<open>{brace}\<close> segment of the path template is
  passed to the Parameter Resolver for the path-variable interface even when its \<open>in\<close> field
  is not \<open>path\<close> (the path filter accepts \<open>in === 'path'\<close> or a name match), and is withheld
  from the one for the query interface even when its \<open>in\<close> field is \<open>query\<close>. When the
  parameter is representable (its schema has a \<open>$ref\<close>, or a type that the Primitive Type
  Mapper maps), the path-variable interface that \<open>resolvePath\<close> registers has a field of its
  name. In every case no field built for the query interface has its name: \<open>resolveQuery\<close>
  either registers no query interface, or registers one without a field of that name.
\<close>

theorem brace_parameter_is_path_variable:
  assumes "request_parameters operation = Some ps"
    and "p \<in> set ps"
    and "parameter_name p \<in> set (matchPathVars path)"
  shows "p \<in> set (pathParameters (matchPathVars path) operation)
       \<and> p \<notin> set (queryParameters (matchPathVars path) operation)
       \<and> parameter_name p
           \<notin> field_name ` set (snd (parametersLoop m (queryParameters (matchPathVars path) operation) defs [] []))
       \<and> (truthy (parameterKeyword p) \<longrightarrow>
            (\<exists>new fs.
               resolvePath m (matchPathVars path) operation defs
                 = new @ \<lparr>interface_name =
                             toFirstUpperCase (parseOperationId (request_operationId operation)) @ ''PathVar'',
                           interface_description = None, interface_fields = fs\<rparr>
                       # fst (parametersLoop m (pathParameters (matchPathVars path) operation) defs [] [])
               \<and> parameter_name p \<in> field_name ` set fs))
       \<and> ((snd (parametersLoop m (queryParameters (matchPathVars path) operation) defs [] []) = []
             \<and> resolveQuery m (matchPathVars path) operation defs
                 = fst (parametersLoop m (queryParameters (matchPathVars path) operation) defs [] []))
            \<or> (\<exists>new fs.
                  resolveQuery m (matchPathVars path) operation defs
                    = new @ \<lparr>interface_name =
                                toFirstUpperCase (parseOperationId (request_operationId operation)) @ ''Query'',
                              interface_description = None, interface_fields = fs\<rparr>
                          # fst (parametersLoop m (queryParameters (matchPathVars path) operation) defs [] [])
                  \<and> parameter_name p \<notin> field_name ` set fs))"
proof (intro conjI impI)
  show inpath: "p \<in> set (pathParameters (matchPathVars path) operation)"
    using assms by (simp add: pathParameters_def)
  show "p \<notin> set (queryParameters (matchPathVars path) operation)"
    using assms by (simp add: queryParameters_def)
  show notq: "parameter_name p
          \<notin> field_name ` set (snd (parametersLoop m (queryParameters (matchPathVars path) operation) defs [] []))"
    using assms(3) by (auto simp: parametersLoop_names queryParameters_def split: option.splits)
  let ?qs = "queryParameters (matchPathVars path) operation"
  let ?qn = "toFirstUpperCase (parseOperationId (request_operationId operation)) @ ''Query''"
  show "(snd (parametersLoop m ?qs defs [] []) = []
             \<and> resolveQuery m (matchPathVars path) operation defs = fst (parametersLoop m ?qs defs [] []))
            \<or> (\<exists>new fs.
                  resolveQuery m (matchPathVars path) operation defs
                    = new @ \<lparr>interface_name = ?qn, interface_description = None, interface_fields = fs\<rparr>
                          # fst (parametersLoop m ?qs defs [] [])
                  \<and> parameter_name p \<notin> field_name ` set fs)"
  proof (cases "snd (parametersLoop m ?qs defs [] []) = []")
    case True
    from resolveParameters_empty[OF True, of ?qn] True show ?thesis
      unfolding resolveQuery_def Let_def by blast
  next
    case False
    from resolveParameters_shape[OF False, of ?qn] obtain new where
      "resolveParameters m ?qn ?qs defs
         = new @ \<lparr>interface_name = ?qn, interface_description = None,
                   interface_fields = map (rewriteItem m) (snd (parametersLoop m ?qs defs [] []))\<rparr>
               # fst (parametersLoop m ?qs defs [] [])"
      by blast
    moreover have "parameter_name p
        \<notin> field_name ` set (map (rewriteItem m) (snd (parametersLoop m ?qs defs [] [])))"
      using notq by (auto simp: image_iff rewriteItem_keeps)
    ultimately show ?thesis
      unfolding resolveQuery_def Let_def by blast
  qed
next
  assume rep: "truthy (parameterKeyword p)"
  have inpath: "p \<in> set (pathParameters (matchPathVars path) operation)"
    using assms by (simp add: pathParameters_def)
  let ?ps = "pathParameters (matchPathVars path) operation"
  let ?nm = "toFirstUpperCase (parseOperationId (request_operationId operation)) @ ''PathVar''"
  from rep inpath have mem: "parameter_name p \<in> field_name ` set (snd (parametersLoop m ?ps defs [] []))"
    by (auto simp: parametersLoop_names)
  then have "snd (parametersLoop m ?ps defs [] []) \<noteq> []"
    by auto
  from resolveParameters_shape[OF this, of ?nm] obtain new where
    "resolveParameters m ?nm ?ps defs
       = new @ \<lparr>interface_name = ?nm, interface_description = None,
                 interface_fields = map (rewriteItem m) (snd (parametersLoop m ?ps defs [] []))\<rparr>
             # fst (parametersLoop m ?ps defs [] [])"
    by blast
  moreover have "parameter_name p
      \<in> field_name ` set (map (rewriteItem m) (snd (parametersLoop m ?ps defs [] [])))"
    using mem by (auto simp: image_iff rewriteItem_keeps)
  ultimately show "\<exists>new fs.
               resolvePath m (matchPathVars path) operation defs
                 = new @ \<lparr>interface_name = ?nm, interface_description = None, interface_fields = fs\<rparr>
                       # fst (parametersLoop m ?ps defs [] [])
               \<and> parameter_name p \<in> field_name ` set fs"
    unfolding resolvePath_def Let_def by blast
qed

theorem brace_parameter_is_path_variable_witness:
  "request_parameters exampleOperation = Some exampleParameters
   \<and> hd exampleParameters \<in> set exampleParameters
   \<and> parameter_in (hd exampleParameters) = ''query''
   \<and> parameter_name (hd exampleParameters) \<in> set (matchPathVars ''/pets/{id}'')
   \<and> hd exampleParameters \<in> set (pathParameters (matchPathVars ''/pets/{id}'') exampleOperation)
   \<and> hd exampleParameters \<notin> set (queryParameters (matchPathVars ''/pets/{id}'') exampleOperation)
   \<and> truthy (parameterKeyword (hd exampleParameters))
   \<and> (\<exists>new fs.
         resolvePath matchRefTypeName_spec (matchPathVars ''/pets/{id}'') exampleOperation []
           = new @ \<lparr>interface_name =
                       toFirstUpperCase (parseOperationId (request_operationId exampleOperation)) @ ''PathVar'',
                     interface_description = None, interface_fields = fs\<rparr>
                 # fst (parametersLoop matchRefTypeName_spec
                          (pathParameters (matchPathVars ''/pets/{id}'') exampleOperation) [] [] [])
         \<and> parameter_name (hd exampleParameters) \<in> field_name ` set fs)
   \<and> ((snd (parametersLoop matchRefTypeName_spec
               (queryParameters (matchPathVars ''/pets/{id}'') exampleOperation) [] [] []) = []
        \<and> resolveQuery matchRefTypeName_spec (matchPathVars ''/pets/{id}'') exampleOperation []
            = fst (parametersLoop matchRefTypeName_spec
                     (queryParameters (matchPathVars ''/pets/{id}'') exampleOperation) [] [] []))
       \<or> (\<exists>new fs.
             resolveQuery matchRefTypeName_spec (matchPathVars ''/pets/{id}'') exampleOperation []
               = new @ \<lparr>interface_name =
                           toFirstUpperCase (parseOperationId (request_operationId exampleOperation)) @ ''Query'',
                         interface_description = None, interface_fields = fs\<rparr>
                     # fst (parametersLoop matchRefTypeName_spec
                              (queryParameters (matchPathVars ''/pets/{id}'') exampleOperation) [] [] [])
             \<and> parameter_name (hd exampleParameters) \<notin> field_name ` set fs))
   \<and> map interface_name (resolvePath matchRefTypeName_spec (matchPathVars ''/pets/{id}'') exampleOperation [])
       = [''GetPetPathVar'']
   \<and> map field_name (interface_fields
         (hd (resolvePath matchRefTypeName_spec (matchPathVars ''/pets/{id}'') exampleOperation [])))
       = [''id'']
   \<and> map interface_name (resolveQuery matchRefTypeName_spec (matchPathVars ''/pets/{id}'') exampleOperation [])
       = [''GetPetQuery'']
   \<and> map field_name (interface_fields
         (hd (resolveQuery matchRefTypeName_spec (matchPathVars ''/pets/{id}'') exampleOperation [])))
       = [''q'', ''r'']"
proof -
  have h1: "request_parameters exampleOperation = Some exampleParameters"
    by (simp add: exampleOperation_def)
  have h2: "hd exampleParameters \<in> set exampleParameters"
    by (simp add: exampleParameters_def)
  have q: "parameter_in (hd exampleParameters) = ''query''"
    by (simp add: exampleParameters_def)
  have h3: "parameter_name (hd exampleParameters) \<in> set (matchPathVars ''/pets/{id}'')"
    by code_simp
  note inst = brace_parameter_is_path_variable
    [OF h1 h2 h3, where m = matchRefTypeName_spec and defs = "[]"]
  have h4: "truthy (parameterKeyword (hd exampleParameters))"
    by (simp add: exampleParameters_def parameterKeyword_def typeSchema_def truthy_def)
  note tail = conjunct2[OF conjunct2[OF conjunct2[OF inst]]]
  note reg = mp[OF conjunct1[OF tail] h4]
  note qry = conjunct2[OF tail]
  have e1: "map interface_name
              (resolvePath matchRefTypeName_spec (matchPathVars ''/pets/{id}'') exampleOperation [])
       = [''GetPetPathVar'']"
    by code_simp
  have e2: "map field_name (interface_fields
         (hd (resolvePath matchRefTypeName_spec (matchPathVars ''/pets/{id}'') exampleOperation [])))
       = [''id'']"
    by code_simp
  have e3: "map interface_name
              (resolveQuery matchRefTypeName_spec (matchPathVars ''/pets/{id}'') exampleOperation [])
       = [''GetPetQuery'']"
    by code_simp
  have e4: "map field_name (interface_fields
         (hd (resolveQuery matchRefTypeName_spec (matchPathVars ''/pets/{id}'') exampleOperation [])))
       = [''q'', ''r'']"
    by code_simp
  show ?thesis
    by (rule conjI[OF h1 conjI[OF h2 conjI[OF q conjI[OF h3
          conjI[OF conjunct1[OF inst] conjI[OF conjunct1[OF conjunct2[OF inst]]
          conjI[OF h4 conjI[OF reg conjI[OF qry conjI[OF e1 conjI[OF e2 conjI[OF e3 e4]]]]]]]]]]]])
qed

lemma lastName_snoc: "lastName (new @ [x]) = Some (interface_name x)"
  by (simp add: lastName_def)

lemma resolveInterface_empty_registers:
  assumes "ref \<noteq> []"
    and "Option.bind (map_of defs (drop (length definitionPrefix) ref)) schema_properties \<noteq> None"
  shows "\<exists>new fs. resolveInterface m ref defs [] mr
           = new @ [\<lparr>interface_name = m definitionPrefix ref,
                      interface_description =
                        Option.bind (map_of defs (drop (length definitionPrefix) ref)) schema_description,
                      interface_fields = fs\<rparr>]"
  using resolveInterface_registers[OF assms(1) _ assms(2), of m "[]" mr]
  by (auto simp: definitionInterface_def)

lemma javaTypeToTsKeyword_nonempty:
  "javaTypeToTsKeyword s = Some k \<Longrightarrow> k \<noteq> []"
  by (cases s) (auto simp: Let_def split: if_splits option.splits)

lemma javaTypeToTsKeyword_array:
  assumes "schema_type schema = Some ''array''"
    and "schema_format schema \<noteq> Some ''binary''"
    and "schema_items schema = Some items"
    and "\<not> truthy (schema_ref items)"
    and "truthy (schema_type items)"
    and "javaTypeToTsKeyword items = Some k"
  shows "javaTypeToTsKeyword schema = Some (k @ ''[]'')"
proof -
  from assms(6) have "k \<noteq> []" by (rule javaTypeToTsKeyword_nonempty)
  with assms show ?thesis
    by (cases schema) (simp add: Let_def truthy_def)
qed

text \<open>
  C3. For a body or response schema of type \<open>array\<close>: when \<open>items.$ref\<close> names a
  definition that resolves (it is in the table and has properties), the name returned is
  the name under which the element's interface was registered, with nothing appended, and
  that interface closes the collector; when \<open>items\<close> carries no \<open>$ref\<close>, the name is the
  Primitive Type Mapper's result for the whole schema and the collector stays empty, so
  that a primitive element type \<open>k\<close> gives \<open>k[]\<close>.
\<close>

theorem array_schema_name:
  assumes "schema_type schema = Some ''array''"
  shows "(schema_items schema = Some items \<and> schema_ref items = Some ref \<and> ref \<noteq> []
            \<and> Option.bind (map_of defs (drop (length definitionPrefix) ref)) schema_properties \<noteq> None
          \<longrightarrow> snd (resolveSchema m schema defs defaultName) = Some (m definitionPrefix ref)
              \<and> (\<exists>new fs.
                    fst (resolveSchema m schema defs defaultName)
                      = new @ [\<lparr>interface_name = m definitionPrefix ref,
                                 interface_description =
                                   Option.bind (map_of defs (drop (length definitionPrefix) ref))
                                     schema_description,
                                 interface_fields = fs\<rparr>]))
       \<and> (\<not> truthy (Option.bind (schema_items schema) schema_ref)
          \<longrightarrow> resolveSchema m schema defs defaultName = ([], javaTypeToTsKeyword schema))
       \<and> (schema_items schema = Some items \<and> \<not> truthy (schema_ref items) \<and> truthy (schema_type items)
            \<and> javaTypeToTsKeyword items = Some k \<and> schema_format schema \<noteq> Some ''binary''
          \<longrightarrow> resolveSchema m schema defs defaultName = ([], Some (k @ ''[]'')))"
proof (intro conjI impI)
  assume a: "schema_items schema = Some items \<and> schema_ref items = Some ref \<and> ref \<noteq> []
            \<and> Option.bind (map_of defs (drop (length definitionPrefix) ref)) schema_properties \<noteq> None"
  then have r: "resolveSchema m schema defs defaultName
                  = (resolveInterface m ref defs [] True, lastName (resolveInterface m ref defs [] True))"
    using assms by (simp add: resolveSchema_def truthy_def Let_def)
  from a resolveInterface_empty_registers[of ref defs m True] obtain new fs where
    shape: "resolveInterface m ref defs [] True
           = new @ [\<lparr>interface_name = m definitionPrefix ref,
                      interface_description =
                        Option.bind (map_of defs (drop (length definitionPrefix) ref)) schema_description,
                      interface_fields = fs\<rparr>]"
    by blast
  show "snd (resolveSchema m schema defs defaultName) = Some (m definitionPrefix ref)"
    unfolding r snd_conv shape lastName_snoc by simp
  show "\<exists>new fs.
          fst (resolveSchema m schema defs defaultName)
            = new @ [\<lparr>interface_name = m definitionPrefix ref,
                       interface_description =
                         Option.bind (map_of defs (drop (length definitionPrefix) ref)) schema_description,
                       interface_fields = fs\<rparr>]"
    unfolding r fst_conv using shape by blast
next
  assume "\<not> truthy (Option.bind (schema_items schema) schema_ref)"
  then show "resolveSchema m schema defs defaultName = ([], javaTypeToTsKeyword schema)"
    using assms by (simp add: resolveSchema_def)
next
  assume a: "schema_items schema = Some items \<and> \<not> truthy (schema_ref items) \<and> truthy (schema_type items)
            \<and> javaTypeToTsKeyword items = Some k \<and> schema_format schema \<noteq> Some ''binary''"
  then have "javaTypeToTsKeyword schema = Some (k @ ''[]'')"
    using assms javaTypeToTsKeyword_array[of schema items k] by blast
  moreover from a have "\<not> truthy (Option.bind (schema_items schema) schema_ref)"
    by simp
  ultimately show "resolveSchema m schema defs defaultName = ([], Some (k @ ''[]''))"
    using assms by (simp add: resolveSchema_def)
qed

definition arraySchema :: "Schema \<Rightarrow> Schema" where
  "arraySchema items = Schema (Some ''array'') (Some items) None None None None None"

definition petDefinitions :: "(string \<times> Definition) list" where
  "petDefinitions = [(''Pet'', petDefinition)]"

theorem array_schema_name_witness:
  "schema_type (arraySchema (refSchema ''#/components/schemas/Pet'')) = Some ''array''
   \<and> (schema_items (arraySchema (refSchema ''#/components/schemas/Pet''))
         = Some (refSchema ''#/components/schemas/Pet'')
       \<and> schema_ref (refSchema ''#/components/schemas/Pet'') = Some ''#/components/schemas/Pet''
       \<and> ''#/components/schemas/Pet'' \<noteq> []
       \<and> Option.bind (map_of petDefinitions (drop (length definitionPrefix) ''#/components/schemas/Pet''))
            schema_properties \<noteq> None)
   \<and> snd (resolveSchema matchRefTypeName_spec (arraySchema (refSchema ''#/components/schemas/Pet''))
            petDefinitions ''ResponseBody'')
       = Some (matchRefTypeName_spec definitionPrefix ''#/components/schemas/Pet'')
   \<and> matchRefTypeName_spec definitionPrefix ''#/components/schemas/Pet'' = ''Pet''
   \<and> schema_type (arraySchema (typeSchema ''number'')) = Some ''array''
   \<and> (schema_items (arraySchema (typeSchema ''number'')) = Some (typeSchema ''number'')
       \<and> \<not> truthy (schema_ref (typeSchema ''number'')) \<and> truthy (schema_type (typeSchema ''number''))
       \<and> javaTypeToTsKeyword (typeSchema ''number'') = Some ''number''
       \<and> schema_format (arraySchema (typeSchema ''number'')) \<noteq> Some ''binary'')
   \<and> resolveSchema matchRefTypeName_spec (arraySchema (typeSchema ''number'')) petDefinitions ''ResponseBody''
       = ([], Some (''number'' @ ''[]''))"
proof -
  let ?pet = "''#/components/schemas/Pet''"
  have t1: "schema_type (arraySchema (refSchema ?pet)) = Some ''array''"
    by (simp add: arraySchema_def)
  have h1: "schema_items (arraySchema (refSchema ?pet)) = Some (refSchema ?pet)
       \<and> schema_ref (refSchema ?pet) = Some ?pet
       \<and> ?pet \<noteq> []
       \<and> Option.bind (map_of petDefinitions (drop (length definitionPrefix) ?pet)) schema_properties \<noteq> None"
    by (simp add: arraySchema_def refSchema_def petDefinitions_def petDefinition_def objectSchema_def
                  definitionPrefix_def)
  note ref = array_schema_name
    [OF t1, where items = "refSchema ?pet" and ref = ?pet and defs = petDefinitions
       and m = matchRefTypeName_spec and defaultName = "''ResponseBody''"]
  note named = conjunct1[OF mp[OF conjunct1[OF ref] h1]]
  have nm: "matchRefTypeName_spec definitionPrefix ?pet = ''Pet''"
    by (simp add: matchRefTypeName_spec_def definitionPrefix_def bracketTail_def)
  have t2: "schema_type (arraySchema (typeSchema ''number'')) = Some ''array''"
    by (simp add: arraySchema_def)
  have h2: "schema_items (arraySchema (typeSchema ''number'')) = Some (typeSchema ''number'')
       \<and> \<not> truthy (schema_ref (typeSchema ''number'')) \<and> truthy (schema_type (typeSchema ''number''))
       \<and> javaTypeToTsKeyword (typeSchema ''number'') = Some ''number''
       \<and> schema_format (arraySchema (typeSchema ''number'')) \<noteq> Some ''binary''"
    by (simp add: arraySchema_def typeSchema_def truthy_def)
  note prim = array_schema_name
    [OF t2, where items = "typeSchema ''number''" and k = "''number''" and defs = petDefinitions
       and m = matchRefTypeName_spec and defaultName = "''ResponseBody''"]
  note mapped = mp[OF conjunct2[OF conjunct2[OF prim]] h2]
  show ?thesis
    by (rule conjI[OF t1 conjI[OF h1 conjI[OF named conjI[OF nm conjI[OF t2 conjI[OF h2 mapped]]]]]])
qed

definition nestedDefinitions :: "(string \<times> Definition) list" where
  "nestedDefinitions =
     [(''Order'', objectSchema [(''customer'', refSchema ''#/components/schemas/Customer'')] None),
      (''Customer'', objectSchema [(''name'', typeSchema ''string'')] None)]"

text \<open>
  C4, as stated, fails. The claim names the last interface registered. For a response
  schema that refers to \<open>Order\<close>, whose property refers to \<open>Customer\<close>, \<open>resolveProperties\<close>
  pushes \<open>Order\<close> and only then runs the rewrite pass, which resolves the reference to
  \<open>Customer\<close> against a collector that already holds \<open>Order\<close> and inserts \<open>Customer\<close> in
  front of it. \<open>Customer\<close> is the last interface registered; the name returned is \<open>Order\<close>.
\<close>

theorem resolveSchema_last_registered_counterexample:
  "map interface_name
     (snd (transformInterfaceBody matchRefTypeName_spec
             (definitionBody (map_of nestedDefinitions ''Order'') True) nestedDefinitions
             [definitionInterface ''Order'' (map_of nestedDefinitions ''Order'')
                (definitionBody (map_of nestedDefinitions ''Order'') True)] True))
     = [''Customer'', ''Order'']
   \<and> map interface_name
        (fst (resolveSchema matchRefTypeName_spec (refSchema ''#/components/schemas/Order'')
                nestedDefinitions ''ResponseBody''))
       = [''Customer'', ''Order'']
   \<and> snd (resolveSchema matchRefTypeName_spec (refSchema ''#/components/schemas/Order'')
            nestedDefinitions ''ResponseBody'')
       = Some ''Order''
   \<and> Some ''Order'' \<noteq> Some ''Customer''"
proof -
  have a: "map interface_name
     (snd (transformInterfaceBody matchRefTypeName_spec
             (definitionBody (map_of nestedDefinitions ''Order'') True) nestedDefinitions
             [definitionInterface ''Order'' (map_of nestedDefinitions ''Order'')
                (definitionBody (map_of nestedDefinitions ''Order'') True)] True))
     = [''Customer'', ''Order'']"
    by code_simp
  have b: "map interface_name
        (fst (resolveSchema matchRefTypeName_spec (refSchema ''#/components/schemas/Order'')
                nestedDefinitions ''ResponseBody''))
       = [''Customer'', ''Order'']"
    by code_simp
  have c: "snd (resolveSchema matchRefTypeName_spec (refSchema ''#/components/schemas/Order'')
            nestedDefinitions ''ResponseBody'')
       = Some ''Order''"
    by code_simp
  have d: "Some ''Order'' \<noteq> Some ''Customer''"
    by simp
  show ?thesis
    by (rule conjI[OF a conjI[OF b conjI[OF c d]]])
qed

lemma lastName_Nil: "lastName [] = None"
  by (simp add: lastName_def)

lemma resolveSchema_reference:
  assumes "(schema_type schema = Some ''array'' \<and> Option.bind (schema_items schema) schema_ref = Some ref)
           \<or> (schema_type schema \<noteq> Some ''array'' \<and> schema_ref schema = Some ref)"
    and "ref \<noteq> []"
  shows "resolveSchema m schema defs defaultName
           = (resolveInterface m ref defs [] True, lastName (resolveInterface m ref defs [] True))"
  using assms by (auto simp: resolveSchema_def truthy_def Let_def)

lemma resolveSchema_inline:
  assumes "schema_type schema \<noteq> Some ''array''" and "\<not> truthy (schema_ref schema)"
  shows "resolveSchema m schema defs defaultName
           = (resolveProperties m defaultName (Some schema) defs [] True,
              lastName (resolveProperties m defaultName (Some schema) defs [] True))"
  using assms by (simp add: resolveSchema_def Let_def)

text \<open>
  C4, amended. The name returned by \<open>resolveSchema\<close> is the name of the top-level interface,
  which is the first one registered during the call and stays the last element of the
  collector, the interfaces of nested references being registered after it and in front of
  it. For a schema with a reference of its own (\<open>items.$ref\<close> of an array, \<open>$ref\<close>
  otherwise) that is the name \<open>matchRefTypeName\<close> gives for that reference; for an inline
  schema with properties it is the default name. The name is the Primitive Type Mapper's
  result, with an empty collector, for an array whose items carry no \<open>$ref\<close>; and it is
  absent, with an empty collector, when nothing was registered: the reference names no
  definition with properties, or the inline schema has none.
\<close>

theorem resolveSchema_name_top_level:
  "(schema_type schema = Some ''array'' \<and> \<not> truthy (Option.bind (schema_items schema) schema_ref)
      \<longrightarrow> resolveSchema m schema defs defaultName = ([], javaTypeToTsKeyword schema))
   \<and> (((schema_type schema = Some ''array'' \<and> Option.bind (schema_items schema) schema_ref = Some ref)
         \<or> (schema_type schema \<noteq> Some ''array'' \<and> schema_ref schema = Some ref))
        \<and> ref \<noteq> []
        \<and> Option.bind (map_of defs (drop (length definitionPrefix) ref)) schema_properties \<noteq> None
      \<longrightarrow> snd (resolveSchema m schema defs defaultName) = Some (m definitionPrefix ref)
          \<and> (\<exists>new.
                snd (transformInterfaceBody m
                       (definitionBody (map_of defs (drop (length definitionPrefix) ref)) True) defs
                       [definitionInterface (m definitionPrefix ref)
                          (map_of defs (drop (length definitionPrefix) ref))
                          (definitionBody (map_of defs (drop (length definitionPrefix) ref)) True)] True)
                  = new @ [definitionInterface (m definitionPrefix ref)
                             (map_of defs (drop (length definitionPrefix) ref))
                             (definitionBody (map_of defs (drop (length definitionPrefix) ref)) True)]
                \<and> fst (resolveSchema m schema defs defaultName)
                    = new @ [definitionInterface (m definitionPrefix ref)
                               (map_of defs (drop (length definitionPrefix) ref))
                               (map (rewriteItem m)
                                  (definitionBody (map_of defs (drop (length definitionPrefix) ref)) True))]))
   \<and> (((schema_type schema = Some ''array'' \<and> Option.bind (schema_items schema) schema_ref = Some ref)
         \<or> (schema_type schema \<noteq> Some ''array'' \<and> schema_ref schema = Some ref))
        \<and> ref \<noteq> []
        \<and> Option.bind (map_of defs (drop (length definitionPrefix) ref)) schema_properties = None
      \<longrightarrow> resolveSchema m schema defs defaultName = ([], None))
   \<and> (schema_type schema \<noteq> Some ''array'' \<and> \<not> truthy (schema_ref schema)
        \<and> schema_properties schema \<noteq> None
      \<longrightarrow> snd (resolveSchema m schema defs defaultName) = Some defaultName
          \<and> (\<exists>new.
                snd (transformInterfaceBody m (definitionBody (Some schema) True) defs
                       [definitionInterface defaultName (Some schema)
                          (definitionBody (Some schema) True)] True)
                  = new @ [definitionInterface defaultName (Some schema)
                             (definitionBody (Some schema) True)]
                \<and> fst (resolveSchema m schema defs defaultName)
                    = new @ [definitionInterface defaultName (Some schema)
                               (map (rewriteItem m) (definitionBody (Some schema) True))]))
   \<and> (schema_type schema \<noteq> Some ''array'' \<and> \<not> truthy (schema_ref schema)
        \<and> schema_properties schema = None
      \<longrightarrow> resolveSchema m schema defs defaultName = ([], None))"
proof (intro conjI impI)
  assume "schema_type schema = Some ''array'' \<and> \<not> truthy (Option.bind (schema_items schema) schema_ref)"
  then show "resolveSchema m schema defs defaultName = ([], javaTypeToTsKeyword schema)"
    by (simp add: resolveSchema_def)
next
  let ?d = "map_of defs (drop (length definitionPrefix) ref)"
  assume a: "((schema_type schema = Some ''array'' \<and> Option.bind (schema_items schema) schema_ref = Some ref)
         \<or> (schema_type schema \<noteq> Some ''array'' \<and> schema_ref schema = Some ref))
        \<and> ref \<noteq> []
        \<and> Option.bind ?d schema_properties \<noteq> None"
  then have r: "resolveSchema m schema defs defaultName
           = (resolveInterface m ref defs [] True, lastName (resolveInterface m ref defs [] True))"
    using resolveSchema_reference[of schema ref m defs defaultName] by blast
  from a have u: "resolveInterface m ref defs [] True
                    = resolveProperties m (m definitionPrefix ref) ?d defs [] True"
    by (simp add: resolveInterface_unfold)
  from a resolveProperties_shape[of ?d m True defs "m definitionPrefix ref" "[]"] obtain new where
    pass: "snd (transformInterfaceBody m (definitionBody ?d True) defs
                  [definitionInterface (m definitionPrefix ref) ?d (definitionBody ?d True)] True)
             = new @ [definitionInterface (m definitionPrefix ref) ?d (definitionBody ?d True)]"
    and shape: "resolveProperties m (m definitionPrefix ref) ?d defs [] True
             = new @ [definitionInterface (m definitionPrefix ref) ?d
                        (map (rewriteItem m) (definitionBody ?d True))]"
    by blast
  show "snd (resolveSchema m schema defs defaultName) = Some (m definitionPrefix ref)"
    unfolding r snd_conv u shape lastName_snoc by (simp add: definitionInterface_def)
  show "\<exists>new.
          snd (transformInterfaceBody m (definitionBody ?d True) defs
                 [definitionInterface (m definitionPrefix ref) ?d (definitionBody ?d True)] True)
            = new @ [definitionInterface (m definitionPrefix ref) ?d (definitionBody ?d True)]
          \<and> fst (resolveSchema m schema defs defaultName)
              = new @ [definitionInterface (m definitionPrefix ref) ?d
                         (map (rewriteItem m) (definitionBody ?d True))]"
    unfolding r fst_conv u using pass shape by blast
next
  let ?d = "map_of defs (drop (length definitionPrefix) ref)"
  assume a: "((schema_type schema = Some ''array'' \<and> Option.bind (schema_items schema) schema_ref = Some ref)
         \<or> (schema_type schema \<noteq> Some ''array'' \<and> schema_ref schema = Some ref))
        \<and> ref \<noteq> []
        \<and> Option.bind ?d schema_properties = None"
  then have r: "resolveSchema m schema defs defaultName
           = (resolveInterface m ref defs [] True, lastName (resolveInterface m ref defs [] True))"
    using resolveSchema_reference[of schema ref m defs defaultName] by blast
  from a have "resolveInterface m ref defs [] True = []"
    by (simp add: resolveInterface_skips)
  then show "resolveSchema m schema defs defaultName = ([], None)"
    unfolding r by (simp add: lastName_Nil)
next
  assume a: "schema_type schema \<noteq> Some ''array'' \<and> \<not> truthy (schema_ref schema)
        \<and> schema_properties schema \<noteq> None"
  then have r: "resolveSchema m schema defs defaultName
           = (resolveProperties m defaultName (Some schema) defs [] True,
              lastName (resolveProperties m defaultName (Some schema) defs [] True))"
    using resolveSchema_inline[of schema m defs defaultName] by blast
  from a have "Option.bind (Some schema) schema_properties \<noteq> None"
    by simp
  from resolveProperties_shape[OF this, of m True defs defaultName "[]"] obtain new where
    pass: "snd (transformInterfaceBody m (definitionBody (Some schema) True) defs
                  [definitionInterface defaultName (Some schema) (definitionBody (Some schema) True)] True)
             = new @ [definitionInterface defaultName (Some schema) (definitionBody (Some schema) True)]"
    and shape: "resolveProperties m defaultName (Some schema) defs [] True
             = new @ [definitionInterface defaultName (Some schema)
                        (map (rewriteItem m) (definitionBody (Some schema) True))]"
    by blast
  show "snd (resolveSchema m schema defs defaultName) = Some defaultName"
    unfolding r snd_conv shape lastName_snoc by (simp add: definitionInterface_def)
  show "\<exists>new.
          snd (transformInterfaceBody m (definitionBody (Some schema) True) defs
                 [definitionInterface defaultName (Some schema) (definitionBody (Some schema) True)] True)
            = new @ [definitionInterface defaultName (Some schema) (definitionBody (Some schema) True)]
          \<and> fst (resolveSchema m schema defs defaultName)
              = new @ [definitionInterface defaultName (Some schema)
                         (map (rewriteItem m) (definitionBody (Some schema) True))]"
    unfolding r fst_conv using pass shape by blast
next
  assume a: "schema_type schema \<noteq> Some ''array'' \<and> \<not> truthy (schema_ref schema)
        \<and> schema_properties schema = None"
  then have r: "resolveSchema m schema defs defaultName
           = (resolveProperties m defaultName (Some schema) defs [] True,
              lastName (resolveProperties m defaultName (Some schema) defs [] True))"
    using resolveSchema_inline[of schema m defs defaultName] by blast
  from a have "resolveProperties m defaultName (Some schema) defs [] True = []"
    by (simp add: resolveProperties_None)
  then show "resolveSchema m schema defs defaultName = ([], None)"
    unfolding r by (simp add: lastName_Nil)
qed

definition numberArraySchema :: Schema where
  "numberArraySchema = arraySchema (typeSchema ''number'')"

definition orderSchema :: Schema where
  "orderSchema = refSchema ''#/components/schemas/Order''"

definition missingArraySchema :: Schema where
  "missingArraySchema = arraySchema (refSchema ''#/components/schemas/Missing'')"

definition totalSchema :: Schema where
  "totalSchema = objectSchema [(''total'', typeSchema ''number'')] None"

theorem resolveSchema_name_top_level_witness:
  "(schema_type numberArraySchema = Some ''array'' \<and> \<not> truthy (Option.bind (schema_items numberArraySchema) schema_ref))
   \<and> (resolveSchema matchRefTypeName_spec numberArraySchema nestedDefinitions ''ResponseBody'' = ([], javaTypeToTsKeyword numberArraySchema))
   \<and> (((schema_type orderSchema = Some ''array'' \<and> Option.bind (schema_items orderSchema) schema_ref = Some ''#/components/schemas/Order'')
         \<or> (schema_type orderSchema \<noteq> Some ''array'' \<and> schema_ref orderSchema = Some ''#/components/schemas/Order''))
        \<and> ''#/components/schemas/Order'' \<noteq> []
        \<and> Option.bind (map_of nestedDefinitions (drop (length definitionPrefix) ''#/components/schemas/Order'')) schema_properties \<noteq> None)
   \<and> (snd (resolveSchema matchRefTypeName_spec orderSchema nestedDefinitions ''ResponseBody'') = Some (matchRefTypeName_spec definitionPrefix ''#/components/schemas/Order'')
          \<and> (\<exists>new.
                snd (transformInterfaceBody matchRefTypeName_spec
                       (definitionBody (map_of nestedDefinitions (drop (length definitionPrefix) ''#/components/schemas/Order'')) True) nestedDefinitions
                       [definitionInterface (matchRefTypeName_spec definitionPrefix ''#/components/schemas/Order'')
                          (map_of nestedDefinitions (drop (length definitionPrefix) ''#/components/schemas/Order''))
                          (definitionBody (map_of nestedDefinitions (drop (length definitionPrefix) ''#/components/schemas/Order'')) True)] True)
                  = new @ [definitionInterface (matchRefTypeName_spec definitionPrefix ''#/components/schemas/Order'')
                             (map_of nestedDefinitions (drop (length definitionPrefix) ''#/components/schemas/Order''))
                             (definitionBody (map_of nestedDefinitions (drop (length definitionPrefix) ''#/components/schemas/Order'')) True)]
                \<and> fst (resolveSchema matchRefTypeName_spec orderSchema nestedDefinitions ''ResponseBody'')
                    = new @ [definitionInterface (matchRefTypeName_spec definitionPrefix ''#/components/schemas/Order'')
                               (map_of nestedDefinitions (drop (length definitionPrefix) ''#/components/schemas/Order''))
                               (map (rewriteItem matchRefTypeName_spec)
                                  (definitionBody (map_of nestedDefinitions (drop (length definitionPrefix) ''#/components/schemas/Order'')) True))]))
   \<and> (((schema_type missingArraySchema = Some ''array'' \<and> Option.bind (schema_items missingArraySchema) schema_ref = Some ''#/components/schemas/Missing'')
         \<or> (schema_type missingArraySchema \<noteq> Some ''array'' \<and> schema_ref missingArraySchema = Some ''#/components/schemas/Missing''))
        \<and> ''#/components/schemas/Missing'' \<noteq> []
        \<and> Option.bind (map_of nestedDefinitions (drop (length definitionPrefix) ''#/components/schemas/Missing'')) schema_properties = None)
   \<and> (resolveSchema matchRefTypeName_spec missingArraySchema nestedDefinitions ''ResponseBody'' = ([], None))
   \<and> (schema_type totalSchema \<noteq> Some ''array'' \<and> \<not> truthy (schema_ref totalSchema)
        \<and> schema_properties totalSchema \<noteq> None)
   \<and> (snd (resolveSchema matchRefTypeName_spec totalSchema nestedDefinitions ''ResponseBody'') = Some ''ResponseBody''
          \<and> (\<exists>new.
                snd (transformInterfaceBody matchRefTypeName_spec (definitionBody (Some totalSchema) True) nestedDefinitions
                       [definitionInterface ''ResponseBody'' (Some totalSchema)
                          (definitionBody (Some totalSchema) True)] True)
                  = new @ [definitionInterface ''ResponseBody'' (Some totalSchema)
                             (definitionBody (Some totalSchema) True)]
                \<and> fst (resolveSchema matchRefTypeName_spec totalSchema nestedDefinitions ''ResponseBody'')
                    = new @ [definitionInterface ''ResponseBody'' (Some totalSchema)
                               (map (rewriteItem matchRefTypeName_spec) (definitionBody (Some totalSchema) True))]))
   \<and> (schema_type emptySchema \<noteq> Some ''array'' \<and> \<not> truthy (schema_ref emptySchema)
        \<and> schema_properties emptySchema = None)
   \<and> (resolveSchema matchRefTypeName_spec emptySchema nestedDefinitions ''ResponseBody'' = ([], None))
   \<and> matchRefTypeName_spec definitionPrefix ''#/components/schemas/Order'' = ''Order''"
proof -
  have h0: "schema_type numberArraySchema = Some ''array'' \<and> \<not> truthy (Option.bind (schema_items numberArraySchema) schema_ref)"
    by (simp add: numberArraySchema_def orderSchema_def missingArraySchema_def totalSchema_def
                  arraySchema_def typeSchema_def refSchema_def objectSchema_def emptySchema_def
                  truthy_def nestedDefinitions_def definitionPrefix_def)
  note c0 = mp[OF conjunct1[OF resolveSchema_name_top_level
      [where m = matchRefTypeName_spec and schema = numberArraySchema and ref = "''#/components/schemas/Order''"
         and defs = nestedDefinitions and defaultName = "''ResponseBody''"]] h0]
  have h1: "((schema_type orderSchema = Some ''array'' \<and> Option.bind (schema_items orderSchema) schema_ref = Some ''#/components/schemas/Order'')
         \<or> (schema_type orderSchema \<noteq> Some ''array'' \<and> schema_ref orderSchema = Some ''#/components/schemas/Order''))
        \<and> ''#/components/schemas/Order'' \<noteq> []
        \<and> Option.bind (map_of nestedDefinitions (drop (length definitionPrefix) ''#/components/schemas/Order'')) schema_properties \<noteq> None"
    by (simp add: numberArraySchema_def orderSchema_def missingArraySchema_def totalSchema_def
                  arraySchema_def typeSchema_def refSchema_def objectSchema_def emptySchema_def
                  truthy_def nestedDefinitions_def definitionPrefix_def)
  note c1 = mp[OF conjunct1[OF conjunct2[OF resolveSchema_name_top_level
      [where m = matchRefTypeName_spec and schema = orderSchema and ref = "''#/components/schemas/Order''"
         and defs = nestedDefinitions and defaultName = "''ResponseBody''"]]] h1]
  have h2: "((schema_type missingArraySchema = Some ''array'' \<and> Option.bind (schema_items missingArraySchema) schema_ref = Some ''#/components/schemas/Missing'')
         \<or> (schema_type missingArraySchema \<noteq> Some ''array'' \<and> schema_ref missingArraySchema = Some ''#/components/schemas/Missing''))
        \<and> ''#/components/schemas/Missing'' \<noteq> []
        \<and> Option.bind (map_of nestedDefinitions (drop (length definitionPrefix) ''#/components/schemas/Missing'')) schema_properties = None"
    by (simp add: numberArraySchema_def orderSchema_def missingArraySchema_def totalSchema_def
                  arraySchema_def typeSchema_def refSchema_def objectSchema_def emptySchema_def
                  truthy_def nestedDefinitions_def definitionPrefix_def)
  note c2 = mp[OF conjunct1[OF conjunct2[OF conjunct2[OF resolveSchema_name_top_level
      [where m = matchRefTypeName_spec and schema = missingArraySchema and ref = "''#/components/schemas/Missing''"
         and defs = nestedDefinitions and defaultName = "''ResponseBody''"]]]] h2]
  have h3: "schema_type totalSchema \<noteq> Some ''array'' \<and> \<not> truthy (schema_ref totalSchema)
        \<and> schema_properties totalSchema \<noteq> None"
    by (simp add: numberArraySchema_def orderSchema_def missingArraySchema_def totalSchema_def
                  arraySchema_def typeSchema_def refSchema_def objectSchema_def emptySchema_def
                  truthy_def nestedDefinitions_def definitionPrefix_def)
  note c3 = mp[OF conjunct1[OF conjunct2[OF conjunct2[OF conjunct2[OF resolveSchema_name_top_level
      [where m = matchRefTypeName_spec and schema = totalSchema and ref = "''#/components/schemas/Order''"
         and defs = nestedDefinitions and defaultName = "''ResponseBody''"]]]]] h3]
  have h4: "schema_type emptySchema \<noteq> Some ''array'' \<and> \<not> truthy (schema_ref emptySchema)
        \<and> schema_properties emptySchema = None"
    by (simp add: numberArraySchema_def orderSchema_def missingArraySchema_def totalSchema_def
                  arraySchema_def typeSchema_def refSchema_def objectSchema_def emptySchema_def
                  truthy_def nestedDefinitions_def definitionPrefix_def)
  note c4 = mp[OF conjunct2[OF conjunct2[OF conjunct2[OF conjunct2[OF resolveSchema_name_top_level
      [where m = matchRefTypeName_spec and schema = emptySchema and ref = "''#/components/schemas/Order''"
         and defs = nestedDefinitions and defaultName = "''ResponseBody''"]]]]] h4]
  have e: "matchRefTypeName_spec definitionPrefix ''#/components/schemas/Order'' = ''Order''"
    by code_simp
  show ?thesis
    by (rule conjI[OF h0 conjI[OF c0 conjI[OF h1 conjI[OF c1 conjI[OF h2 conjI[OF c2 conjI[OF h3 conjI[OF c3 conjI[OF h4 conjI[OF c4 e]]]]]]]]]])
qed

lemma lastLine_single:
  "list_all (\<lambda>c. \<not> lineTerminator c) ty \<Longrightarrow> lastLine ty = ([], ty)"
proof -
  assume "list_all (\<lambda>c. \<not> lineTerminator c) ty"
  then have tw: "takeWhile (\<lambda>c. \<not> lineTerminator c) (rev ty) = rev ty"
    by (simp add: takeWhile_eq_all_conv list_all_iff)
  show ?thesis
    unfolding lastLine_def Let_def tw by simp
qed

lemma getSubstitution_plain:
  "CHR ''$'' \<notin> set name
     \<Longrightarrow> getSubstitution matched preceding following cap (name @ ''$1'')
           = name @ (case cap of None \<Rightarrow> [] | Some arr \<Rightarrow> arr)"
proof (induction name)
  case Nil
  then show ?case by simp
next
  case (Cons a name)
  then have a: "a \<noteq> CHR ''$''" and IH: "getSubstitution matched preceding following cap (name @ ''$1'')
           = name @ (case cap of None \<Rightarrow> [] | Some arr \<Rightarrow> arr)"
    by auto
  obtain d r where dr: "name @ ''$1'' = d # r"
    by (cases "name @ ''$1''") simp_all
  have "getSubstitution matched preceding following cap (a # d # r)
          = a # getSubstitution matched preceding following cap (d # r)"
    using a by simp
  with dr IH show ?case by simp
qed

lemma replaceType_plain:
  assumes "list_all (\<lambda>c. \<not> lineTerminator c) ty" and "CHR ''$'' \<notin> set name"
  shows "replaceType name ty = name @ (case snd (splitSuffix ty) of None \<Rightarrow> [] | Some arr \<Rightarrow> arr)"
  using assms
  by (simp add: replaceType_def lastLine_single getSubstitution_plain split: prod.splits)

definition ownerDefinition :: Definition where
  "ownerDefinition = objectSchema [(''owner'', refSchema ''#/components/schemas/Missing'')] None"

text \<open>
  C6, as stated, fails in its last part. The table \<open>petDefinitions\<close> has no definition
  \<open>Missing\<close>; resolving a definition whose property \<open>owner\<close> refers to it registers no
  interface for \<open>Missing\<close> and keeps the field, but the rewrite pass has replaced the raw
  reference text by the name extracted from it.
\<close>

theorem unresolved_reference_text_counterexample:
  "map_of petDefinitions (drop (length definitionPrefix) ''#/components/schemas/Missing'') = None
   \<and> resolveProperties matchRefTypeName_spec ''Dog'' (Some ownerDefinition) petDefinitions [] True
       = [\<lparr>interface_name = ''Dog'', interface_description = None,
           interface_fields =
             [\<lparr>field_name = ''owner'', field_optional = True, field_type = ''Missing'',
               field_description = None, field_format = None\<rparr>]\<rparr>]
   \<and> ''Missing'' \<noteq> ''#/components/schemas/Missing''"
proof -
  have a: "map_of petDefinitions (drop (length definitionPrefix) ''#/components/schemas/Missing'') = None"
    by (simp add: petDefinitions_def definitionPrefix_def)
  have b: "resolveProperties matchRefTypeName_spec ''Dog'' (Some ownerDefinition) petDefinitions [] True
       = [\<lparr>interface_name = ''Dog'', interface_description = None,
           interface_fields =
             [\<lparr>field_name = ''owner'', field_optional = True, field_type = ''Missing'',
               field_description = None, field_format = None\<rparr>]\<rparr>]"
    by code_simp
  have c: "''Missing'' \<noteq> ''#/components/schemas/Missing''"
    by simp
  show ?thesis
    by (rule conjI[OF a conjI[OF b c]])
qed

lemma transformInterfaceBody_nth:
  assumes "i < length body"
  shows "fst (transformInterfaceBody m body defs coll mr) ! i = rewriteItem m (body ! i)"
  using assms by (simp add: transformInterfaceBody_fst)

definition petField :: Field where
  "petField =
     \<lparr>field_name = ''pet'', field_optional = False, field_type = ''#/components/schemas/Pet'',
      field_description = None, field_format = None\<rparr>"

definition ownersField :: Field where
  "ownersField =
     \<lparr>field_name = ''owners'', field_optional = True, field_type = ''#/components/schemas/Missing[]'',
      field_description = None, field_format = None\<rparr>"

text \<open>
  C6, amended. For every field of an interface body whose type is a reference (it begins
  with the definition prefix) naming a definition absent from the definitions table,
  resolving that reference is a no-op against any collector (no interface is registered,
  no error is raised), and after the rewrite pass over the body the field is still present
  at its position, changed in its type only: the type is the result of the replace call on
  the raw text with the name that \<open>matchRefTypeName\<close> extracts from it, whether or not the
  reference resolved. Where the raw text has no line terminator and the extracted name no
  dollar sign, that type is the extracted name followed by the array suffix of the raw
  text, if it has one; it is not the raw reference text.
\<close>

theorem unresolved_reference_field_is_rewritten:
  assumes "i < length body"
    and "prefix definitionPrefix (field_type (body ! i))"
    and "map_of defs (drop (length definitionPrefix) (fst (splitSuffix (field_type (body ! i))))) = None"
  shows "resolveInterface m (fst (splitSuffix (field_type (body ! i)))) defs collector mr = collector
       \<and> length (fst (transformInterfaceBody m body defs coll mr)) = length body
       \<and> fst (transformInterfaceBody m body defs coll mr) ! i
           = (body ! i)\<lparr>field_type :=
                replaceType (m definitionPrefix (field_type (body ! i))) (field_type (body ! i))\<rparr>
       \<and> (list_all (\<lambda>c. \<not> lineTerminator c) (field_type (body ! i))
            \<and> CHR ''$'' \<notin> set (m definitionPrefix (field_type (body ! i)))
          \<longrightarrow> replaceType (m definitionPrefix (field_type (body ! i))) (field_type (body ! i))
              = m definitionPrefix (field_type (body ! i))
                @ (case snd (splitSuffix (field_type (body ! i))) of None \<Rightarrow> [] | Some arr \<Rightarrow> arr))"
proof (intro conjI impI)
  from assms(3)
  show "resolveInterface m (fst (splitSuffix (field_type (body ! i)))) defs collector mr = collector"
    by (simp add: resolveInterface_skips)
  show "length (fst (transformInterfaceBody m body defs coll mr)) = length body"
    by (simp add: transformInterfaceBody_fst)
  show "fst (transformInterfaceBody m body defs coll mr) ! i
           = (body ! i)\<lparr>field_type :=
                replaceType (m definitionPrefix (field_type (body ! i))) (field_type (body ! i))\<rparr>"
    using assms(2) by (simp add: transformInterfaceBody_nth[OF assms(1)] rewriteItem_def)
next
  assume "list_all (\<lambda>c. \<not> lineTerminator c) (field_type (body ! i))
            \<and> CHR ''$'' \<notin> set (m definitionPrefix (field_type (body ! i)))"
  then show "replaceType (m definitionPrefix (field_type (body ! i))) (field_type (body ! i))
              = m definitionPrefix (field_type (body ! i))
                @ (case snd (splitSuffix (field_type (body ! i))) of None \<Rightarrow> [] | Some arr \<Rightarrow> arr)"
    using replaceType_plain by blast
qed

theorem unresolved_reference_field_is_rewritten_witness:
  "1 < length [petField, ownersField]
   \<and> prefix definitionPrefix (field_type ([petField, ownersField] ! 1))
   \<and> map_of petDefinitions
        (drop (length definitionPrefix) (fst (splitSuffix (field_type ([petField, ownersField] ! 1))))) = None
   \<and> (resolveInterface matchRefTypeName_spec (fst (splitSuffix (field_type ([petField, ownersField] ! 1))))
         petDefinitions [] True = []
       \<and> length (fst (transformInterfaceBody matchRefTypeName_spec [petField, ownersField]
                        petDefinitions [] True))
           = length [petField, ownersField]
       \<and> fst (transformInterfaceBody matchRefTypeName_spec [petField, ownersField] petDefinitions [] True) ! 1
           = ([petField, ownersField] ! 1)\<lparr>field_type :=
                replaceType (matchRefTypeName_spec definitionPrefix (field_type ([petField, ownersField] ! 1)))
                  (field_type ([petField, ownersField] ! 1))\<rparr>)
   \<and> (list_all (\<lambda>c. \<not> lineTerminator c) (field_type ([petField, ownersField] ! 1))
       \<and> CHR ''$'' \<notin> set (matchRefTypeName_spec definitionPrefix (field_type ([petField, ownersField] ! 1))))
   \<and> replaceType (matchRefTypeName_spec definitionPrefix (field_type ([petField, ownersField] ! 1)))
         (field_type ([petField, ownersField] ! 1))
       = matchRefTypeName_spec definitionPrefix (field_type ([petField, ownersField] ! 1))
         @ (case snd (splitSuffix (field_type ([petField, ownersField] ! 1))) of
              None \<Rightarrow> [] | Some arr \<Rightarrow> arr)
   \<and> map field_type
        (fst (transformInterfaceBody matchRefTypeName_spec [petField, ownersField] petDefinitions [] True))
       = [''Pet'', ''Missing[]'']
   \<and> map interface_name
        (snd (transformInterfaceBody matchRefTypeName_spec [petField, ownersField] petDefinitions [] True))
       = [''Pet'']"
proof -
  have h1: "1 < length [petField, ownersField]"
    by simp
  have h2: "prefix definitionPrefix (field_type ([petField, ownersField] ! 1))"
    by code_simp
  have h3: "map_of petDefinitions
        (drop (length definitionPrefix) (fst (splitSuffix (field_type ([petField, ownersField] ! 1))))) = None"
    by code_simp
  note inst = unresolved_reference_field_is_rewritten
    [OF h1 h2 h3, where m = matchRefTypeName_spec and collector = "[]" and coll = "[]" and mr = True]
  have three: "resolveInterface matchRefTypeName_spec (fst (splitSuffix (field_type ([petField, ownersField] ! 1))))
         petDefinitions [] True = []
       \<and> length (fst (transformInterfaceBody matchRefTypeName_spec [petField, ownersField]
                        petDefinitions [] True))
           = length [petField, ownersField]
       \<and> fst (transformInterfaceBody matchRefTypeName_spec [petField, ownersField] petDefinitions [] True) ! 1
           = ([petField, ownersField] ! 1)\<lparr>field_type :=
                replaceType (matchRefTypeName_spec definitionPrefix (field_type ([petField, ownersField] ! 1)))
                  (field_type ([petField, ownersField] ! 1))\<rparr>"
    by (rule conjI[OF conjunct1[OF inst]
          conjI[OF conjunct1[OF conjunct2[OF inst]] conjunct1[OF conjunct2[OF conjunct2[OF inst]]]]])
  have plain: "list_all (\<lambda>c. \<not> lineTerminator c) (field_type ([petField, ownersField] ! 1))
       \<and> CHR ''$'' \<notin> set (matchRefTypeName_spec definitionPrefix (field_type ([petField, ownersField] ! 1)))"
    by code_simp
  note rewritten = mp[OF conjunct2[OF conjunct2[OF conjunct2[OF inst]]] plain]
  have e1: "map field_type
        (fst (transformInterfaceBody matchRefTypeName_spec [petField, ownersField] petDefinitions [] True))
       = [''Pet'', ''Missing[]'']"
    by code_simp
  have e2: "map interface_name
        (snd (transformInterfaceBody matchRefTypeName_spec [petField, ownersField] petDefinitions [] True))
       = [''Pet'']"
    by code_simp
  show ?thesis
    by (rule conjI[OF h1 conjI[OF h2 conjI[OF h3 conjI[OF three conjI[OF plain
          conjI[OF rewritten conjI[OF e1 e2]]]]]]])
qed

text \<open>
  The claim's "lower-cased HTTP method", for stating it: the ASCII letters of the method
  name in lower case. \<open>httpMethods\<close> are the method names under which a path item of an
  OpenAPI document holds its operations.
\<close>

definition toLowerCase :: "string \<Rightarrow> string" where
  "toLowerCase s =
     map (\<lambda>c. case map_of (zip ''ABCDEFGHIJKLMNOPQRSTUVWXYZ'' ''abcdefghijklmnopqrstuvwxyz'') c of
                 None \<Rightarrow> c
               | Some l \<Rightarrow> l) s"

definition updateOperation :: RequestDefinitionV3 where
  "updateOperation =
     \<lparr>request_operationId = ''updatePetUsingPUT'', request_summary = Some ''Update a pet'',
      request_description = Some ''Replaces the stored pet'',
      request_parameters =
        Some [\<lparr>parameter_name = ''id'', parameter_in = ''path'', parameter_required = Some True,
               parameter_description = None, parameter_schema = Some (typeSchema ''integer'')\<rparr>],
      request_requestBody =
        Some \<lparr>requestBody_content =
                Some [(''application/json'',
                       \<lparr>mediaType_schema = Some (refSchema ''#/components/schemas/Pet'')\<rparr>)]\<rparr>,
      request_responses =
        [(''200'', \<lparr>response_content =
            Some [(''application/json'',
                   \<lparr>mediaType_schema = Some (refSchema ''#/components/schemas/Pet'')\<rparr>)]\<rparr>)]\<rparr>"

definition exampleDocument :: SwaggerV3 where
  "exampleDocument =
     \<lparr>swagger_paths = [(''/pets/{id}'', [(''get'', exampleOperation), (''put'', updateOperation)])],
      swagger_schemas = petDefinitions\<rparr>"

definition httpMethods :: "string list" where
  "httpMethods = [''get'', ''put'', ''post'', ''delete'', ''options'', ''head'', ''patch'', ''trace'']"

text \<open>
  An engine for the examples, none of which consults it: a read on a built-in member
  finds nothing.
\<close>

definition plainBuiltins :: "string \<Rightarrow> string \<Rightarrow> builtinRead" where
  "plainBuiltins member key = ReadsFalsy"

lemma readProperty_found:
  "map_of object key = Some v \<Longrightarrow> readProperty object key = OwnProperty v"
  by (simp add: readProperty_def)

lemma readProperty_none:
  "map_of object key = None \<Longrightarrow> key \<notin> set objectPrototypeMembers \<Longrightarrow> readProperty object key = NoProperty"
  by (simp add: readProperty_def)

lemma slash_not_member:
  "prefix ''/'' path \<Longrightarrow> path \<notin> set objectPrototypeMembers"
  by (auto simp: objectPrototypeMembers_def)

lemma members_not_http:
  "\<forall>key \<in> set objectPrototypeMembers. toLowerCase key \<notin> set httpMethods"
  by code_simp

lemma http_not_member:
  "toLowerCase method \<in> set httpMethods \<Longrightarrow> method \<notin> set objectPrototypeMembers"
  using members_not_http by blast

lemma parser_found:
  assumes "Option.bind (map_of (swagger_paths swaggerJSON) path)
             (\<lambda>operations. map_of operations method) = Some operation"
  shows "parser m b swaggerJSON path method
           = Inr (Some
               \<lparr>result_name = parseOperationId (request_operationId operation),
                result_comment = joinComment (request_summary operation) (request_description operation),
                result_body =
                  snd (resolveSchema m
                         (firstSchema (Option.bind (request_requestBody operation) requestBody_content))
                         (swagger_schemas swaggerJSON) ''RequestBody''),
                result_isFormData =
                  (firstKey (Option.bind (request_requestBody operation) requestBody_content)
                     = Some ''multipart/form-data''),
                result_pathVar =
                  lastName (resolvePath m (matchPathVars path) operation (swagger_schemas swaggerJSON)),
                result_query =
                  lastName (resolveQuery m (matchPathVars path) operation (swagger_schemas swaggerJSON)),
                result_res =
                  snd (resolveSchema m
                         (firstSchema (Option.bind (map_of (request_responses operation) ''200'')
                                         response_content))
                         (swagger_schemas swaggerJSON) ''ResponseBody''),
                result_interfaces =
                  duplicate
                    (resolvePath m (matchPathVars path) operation (swagger_schemas swaggerJSON)
                     @ resolveQuery m (matchPathVars path) operation (swagger_schemas swaggerJSON)
                     @ fst (resolveSchema m
                              (firstSchema (Option.bind (request_requestBody operation)
                                              requestBody_content))
                              (swagger_schemas swaggerJSON) ''RequestBody'')
                     @ fst (resolveSchema m
                              (firstSchema (Option.bind (map_of (request_responses operation) ''200'')
                                              response_content))
                              (swagger_schemas swaggerJSON) ''ResponseBody''))\<rparr>)"
proof -
  from assms obtain operations where
    ops: "map_of (swagger_paths swaggerJSON) path = Some operations"
    and op: "map_of operations method = Some operation"
    by (cases "map_of (swagger_paths swaggerJSON) path") simp_all
  show ?thesis
    by (simp add: parser_def Let_def readProperty_found[OF ops] readProperty_found[OF op]
             split: prod.splits)
qed

lemma parser_not_found:
  assumes "Option.bind (map_of (swagger_paths swaggerJSON) path)
             (\<lambda>operations. map_of operations method) = None"
    and "path \<notin> set objectPrototypeMembers"
    and "method \<notin> set objectPrototypeMembers"
  shows "parser m b swaggerJSON path method = Inr None"
proof (cases "map_of (swagger_paths swaggerJSON) path")
  case None
  with assms(2) show ?thesis
    by (simp add: parser_def readProperty_none)
next
  case (Some operations)
  with assms(1) have "map_of operations method = None"
    by simp
  with Some assms(3) show ?thesis
    by (simp add: parser_def readProperty_found readProperty_none)
qed

lemma parser_inherited_member_throws:
  "parser matchRefTypeName_spec plainBuiltins exampleDocument ''/pets/{id}'' ''constructor'' = Inl TypeError"
  by (simp add: parser_def exampleDocument_def readProperty_def objectPrototypeMembers_def)

text \<open>
  C7, as stated, fails in the lower-casing. The document has an operation under the path
  \<open>/pets/{id}\<close> and the method key \<open>get\<close>, the lower-cased form of \<open>GET\<close>; asked for the
  method \<open>GET\<close>, the parser returns nothing. It looks the method up as it is given.
\<close>

theorem parser_lower_cased_method_counterexample:
  "toLowerCase ''GET'' = ''get''
   \<and> Option.bind (map_of (swagger_paths exampleDocument) ''/pets/{id}'')
        (\<lambda>operations. map_of operations (toLowerCase ''GET''))
       = Some exampleOperation
   \<and> parser matchRefTypeName_spec plainBuiltins exampleDocument ''/pets/{id}'' ''GET'' = Inr None"
proof -
  have a: "toLowerCase ''GET'' = ''get''"
    by (simp add: toLowerCase_def)
  have b: "Option.bind (map_of (swagger_paths exampleDocument) ''/pets/{id}'')
        (\<lambda>operations. map_of operations (toLowerCase ''GET''))
       = Some exampleOperation"
    unfolding a by (simp add: exampleDocument_def)
  have c: "parser matchRefTypeName_spec plainBuiltins exampleDocument ''/pets/{id}'' ''GET'' = Inr None"
    by (simp add: parser_def exampleDocument_def readProperty_def objectPrototypeMembers_def)
  show ?thesis
    by (rule conjI[OF a conjI[OF b c]])
qed

text \<open>
  C7, amended. For every document, every path template (a string that begins with a
  slash) and every HTTP method name, in whatever letter case it is given, the Operation
  Parser looks the operation up by exactly that path and exactly that method string, with
  no case conversion: when the document holds an operation under them, the result is the
  one built from that operation, and when it holds none, the parser returns nothing, an
  absent result and not an error.
\<close>

theorem parser_locates_exact_operation:
  assumes "prefix ''/'' path" and "toLowerCase method \<in> set httpMethods"
  shows "(Option.bind (map_of (swagger_paths swaggerJSON) path)
            (\<lambda>operations. map_of operations method) = Some operation
          \<longrightarrow> parser m b swaggerJSON path method
              = Inr (Some
                  \<lparr>result_name = parseOperationId (request_operationId operation),
                   result_comment =
                     joinComment (request_summary operation) (request_description operation),
                   result_body =
                     snd (resolveSchema m
                            (firstSchema (Option.bind (request_requestBody operation) requestBody_content))
                            (swagger_schemas swaggerJSON) ''RequestBody''),
                   result_isFormData =
                     (firstKey (Option.bind (request_requestBody operation) requestBody_content)
                        = Some ''multipart/form-data''),
                   result_pathVar =
                     lastName (resolvePath m (matchPathVars path) operation (swagger_schemas swaggerJSON)),
                   result_query =
                     lastName (resolveQuery m (matchPathVars path) operation (swagger_schemas swaggerJSON)),
                   result_res =
                     snd (resolveSchema m
                            (firstSchema (Option.bind (map_of (request_responses operation) ''200'')
                                            response_content))
                            (swagger_schemas swaggerJSON) ''ResponseBody''),
                   result_interfaces =
                     duplicate
                       (resolvePath m (matchPathVars path) operation (swagger_schemas swaggerJSON)
                        @ resolveQuery m (matchPathVars path) operation (swagger_schemas swaggerJSON)
                        @ fst (resolveSchema m
                                 (firstSchema (Option.bind (request_requestBody operation)
                                                 requestBody_content))
                                 (swagger_schemas swaggerJSON) ''RequestBody'')
                        @ fst (resolveSchema m
                                 (firstSchema (Option.bind (map_of (request_responses operation) ''200'')
                                                 response_content))
                                 (swagger_schemas swaggerJSON) ''ResponseBody''))\<rparr>))
       \<and> (Option.bind (map_of (swagger_paths swaggerJSON) path)
            (\<lambda>operations. map_of operations method) = None
          \<longrightarrow> parser m b swaggerJSON path method = Inr None)"
proof (intro conjI impI)
  assume "Option.bind (map_of (swagger_paths swaggerJSON) path)
            (\<lambda>operations. map_of operations method) = Some operation"
  then show "parser m b swaggerJSON path method
              = Inr (Some
                  \<lparr>result_name = parseOperationId (request_operationId operation),
                   result_comment =
                     joinComment (request_summary operation) (request_description operation),
                   result_body =
                     snd (resolveSchema m
                            (firstSchema (Option.bind (request_requestBody operation) requestBody_content))
                            (swagger_schemas swaggerJSON) ''RequestBody''),
                   result_isFormData =
                     (firstKey (Option.bind (request_requestBody operation) requestBody_content)
                        = Some ''multipart/form-data''),
                   result_pathVar =
                     lastName (resolvePath m (matchPathVars path) operation (swagger_schemas swaggerJSON)),
                   result_query =
                     lastName (resolveQuery m (matchPathVars path) operation (swagger_schemas swaggerJSON)),
                   result_res =
                     snd (resolveSchema m
                            (firstSchema (Option.bind (map_of (request_responses operation) ''200'')
                                            response_content))
                            (swagger_schemas swaggerJSON) ''ResponseBody''),
                   result_interfaces =
                     duplicate
                       (resolvePath m (matchPathVars path) operation (swagger_schemas swaggerJSON)
                        @ resolveQuery m (matchPathVars path) operation (swagger_schemas swaggerJSON)
                        @ fst (resolveSchema m
                                 (firstSchema (Option.bind (request_requestBody operation)
                                                 requestBody_content))
                                 (swagger_schemas swaggerJSON) ''RequestBody'')
                        @ fst (resolveSchema m
                                 (firstSchema (Option.bind (map_of (request_responses operation) ''200'')
                                                 response_content))
                                 (swagger_schemas swaggerJSON) ''ResponseBody''))\<rparr>)"
    by (rule parser_found)
next
  assume "Option.bind (map_of (swagger_paths swaggerJSON) path)
            (\<lambda>operations. map_of operations method) = None"
  then show "parser m b swaggerJSON path method = Inr None"
    using slash_not_member[OF assms(1)] http_not_member[OF assms(2)] by (rule parser_not_found)
qed

theorem parser_locates_exact_operation_witness:
  "prefix ''/'' ''/pets/{id}''
   \<and> toLowerCase ''get'' \<in> set httpMethods
   \<and> Option.bind (map_of (swagger_paths exampleDocument) ''/pets/{id}'')
        (\<lambda>operations. map_of operations ''get'') = Some exampleOperation
   \<and> parser matchRefTypeName_spec plainBuiltins exampleDocument ''/pets/{id}'' ''get''
       = Inr (Some
             \<lparr>result_name = parseOperationId (request_operationId exampleOperation),
               result_comment = joinComment (request_summary exampleOperation) (request_description exampleOperation),
               result_body =
                 snd (resolveSchema matchRefTypeName_spec
                        (firstSchema (Option.bind (request_requestBody exampleOperation) requestBody_content))
                        (swagger_schemas exampleDocument) ''RequestBody''),
               result_isFormData =
                 (firstKey (Option.bind (request_requestBody exampleOperation) requestBody_content)
                    = Some ''multipart/form-data''),
               result_pathVar = lastName (resolvePath matchRefTypeName_spec (matchPathVars ''/pets/{id}'') exampleOperation (swagger_schemas exampleDocument)),
               result_query = lastName (resolveQuery matchRefTypeName_spec (matchPathVars ''/pets/{id}'') exampleOperation (swagger_schemas exampleDocument)),
               result_res =
                 snd (resolveSchema matchRefTypeName_spec
                        (firstSchema (Option.bind (map_of (request_responses exampleOperation) ''200'') response_content))
                        (swagger_schemas exampleDocument) ''ResponseBody''),
               result_interfaces =
                 duplicate
                   (resolvePath matchRefTypeName_spec (matchPathVars ''/pets/{id}'') exampleOperation (swagger_schemas exampleDocument)
                    @ resolveQuery matchRefTypeName_spec (matchPathVars ''/pets/{id}'') exampleOperation (swagger_schemas exampleDocument)
                    @ fst (resolveSchema matchRefTypeName_spec
                             (firstSchema (Option.bind (request_requestBody exampleOperation) requestBody_content))
                             (swagger_schemas exampleDocument) ''RequestBody'')
                    @ fst (resolveSchema matchRefTypeName_spec
                             (firstSchema (Option.bind (map_of (request_responses exampleOperation) ''200'') response_content))
                             (swagger_schemas exampleDocument) ''ResponseBody''))\<rparr>)
   \<and> parseOperationId (request_operationId exampleOperation) = ''getPet''
   \<and> toLowerCase ''GET'' \<in> set httpMethods
   \<and> Option.bind (map_of (swagger_paths exampleDocument) ''/pets/{id}'')
        (\<lambda>operations. map_of operations ''GET'') = None
   \<and> parser matchRefTypeName_spec plainBuiltins exampleDocument ''/pets/{id}'' ''GET'' = Inr None"
proof -
  have h1: "prefix ''/'' ''/pets/{id}''"
    by simp
  have h2: "toLowerCase ''get'' \<in> set httpMethods"
    by (simp add: toLowerCase_def httpMethods_def)
  have h3: "toLowerCase ''GET'' \<in> set httpMethods"
    by (simp add: toLowerCase_def httpMethods_def)
  have found: "Option.bind (map_of (swagger_paths exampleDocument) ''/pets/{id}'')
        (\<lambda>operations. map_of operations ''get'') = Some exampleOperation"
    by (simp add: exampleDocument_def)
  have missing: "Option.bind (map_of (swagger_paths exampleDocument) ''/pets/{id}'')
        (\<lambda>operations. map_of operations ''GET'') = None"
    by (simp add: exampleDocument_def)
  note lower = parser_locates_exact_operation
    [OF h1 h2, where swaggerJSON = exampleDocument and operation = exampleOperation
       and m = matchRefTypeName_spec and b = plainBuiltins]
  note upper = parser_locates_exact_operation
    [OF h1 h3, where swaggerJSON = exampleDocument and operation = exampleOperation
       and m = matchRefTypeName_spec and b = plainBuiltins]
  have n: "parseOperationId (request_operationId exampleOperation) = ''getPet''"
    by code_simp
  show ?thesis
    by (rule conjI[OF h1 conjI[OF h2 conjI[OF found conjI[OF mp[OF conjunct1[OF lower] found]
          conjI[OF n conjI[OF h3 conjI[OF missing mp[OF conjunct2[OF upper] missing]]]]]]]])
qed

lemma duplicateFrom_names:
  "set (map interface_name (duplicateFrom seen xs)) \<inter> set seen = {}
   \<and> distinct (map interface_name (duplicateFrom seen xs))"
proof (induction xs arbitrary: seen)
  case Nil
  then show ?case by simp
next
  case (Cons x xs)
  show ?case
  proof (cases "interface_name x \<in> set seen")
    case True
    with Cons.IH[of seen] show ?thesis by simp
  next
    case False
    with Cons.IH[of "interface_name x # seen"] show ?thesis by auto
  qed
qed

lemma duplicateFrom_find:
  "find (\<lambda>i. interface_name i = n) (duplicateFrom seen xs)
     = (if n \<in> set seen then None else find (\<lambda>i. interface_name i = n) xs)"
proof (induction xs arbitrary: seen)
  case Nil
  then show ?case by simp
next
  case (Cons x xs)
  show ?case
  proof (cases "interface_name x \<in> set seen")
    case True
    with Cons.IH[of seen] show ?thesis by auto
  next
    case False
    with Cons.IH[of "interface_name x # seen"] show ?thesis by auto
  qed
qed

lemma duplicate_distinct: "distinct (map interface_name (duplicate xs))"
  using duplicateFrom_names[of "[]" xs] by (simp add: duplicate_def)

lemma duplicate_find:
  "find (\<lambda>i. interface_name i = n) (duplicate xs) = find (\<lambda>i. interface_name i = n) xs"
  by (simp add: duplicate_def duplicateFrom_find)

text \<open>
  C2. Whenever the Operation Parser returns a result, no two entries of its \<open>interfaces\<close>
  list have the same name, and for every name the entry kept is the first one of that name
  in the concatenation of the path, query, body and response collectors, in that order.
\<close>

theorem parse_result_interfaces_deduplicated:
  assumes "Option.bind (map_of (swagger_paths swaggerJSON) path)
             (\<lambda>operations. map_of operations method) = Some operation"
  shows "\<exists>r. parser m b swaggerJSON path method = Inr (Some r)
           \<and> distinct (map interface_name (result_interfaces r))
           \<and> (\<forall>n. find (\<lambda>i. interface_name i = n) (result_interfaces r)
                   = find (\<lambda>i. interface_name i = n)
                       (resolvePath m (matchPathVars path) operation (swagger_schemas swaggerJSON)
                        @ resolveQuery m (matchPathVars path) operation (swagger_schemas swaggerJSON)
                        @ fst (resolveSchema m
                                 (firstSchema (Option.bind (request_requestBody operation)
                                                 requestBody_content))
                                 (swagger_schemas swaggerJSON) ''RequestBody'')
                        @ fst (resolveSchema m
                                 (firstSchema (Option.bind (map_of (request_responses operation) ''200'')
                                                 response_content))
                                 (swagger_schemas swaggerJSON) ''ResponseBody'')))"
proof -
  let ?all = "resolvePath m (matchPathVars path) operation (swagger_schemas swaggerJSON)
                        @ resolveQuery m (matchPathVars path) operation (swagger_schemas swaggerJSON)
                        @ fst (resolveSchema m
                                 (firstSchema (Option.bind (request_requestBody operation)
                                                 requestBody_content))
                                 (swagger_schemas swaggerJSON) ''RequestBody'')
                        @ fst (resolveSchema m
                                 (firstSchema (Option.bind (map_of (request_responses operation) ''200'')
                                                 response_content))
                                 (swagger_schemas swaggerJSON) ''ResponseBody'')"
  from parser_found[OF assms, of m b] obtain r where
    r: "parser m b swaggerJSON path method = Inr (Some r)"
    and i: "result_interfaces r = duplicate ?all"
    by simp
  have "distinct (map interface_name (result_interfaces r))"
    unfolding i by (rule duplicate_distinct)
  moreover have "find (\<lambda>i. interface_name i = n) (result_interfaces r)
                   = find (\<lambda>i. interface_name i = n) ?all" for n
    unfolding i by (rule duplicate_find)
  ultimately show ?thesis
    using r by blast
qed

theorem parse_result_interfaces_deduplicated_witness:
  "Option.bind (map_of (swagger_paths exampleDocument) ''/pets/{id}'')
     (\<lambda>operations. map_of operations ''put'') = Some updateOperation
   \<and> (\<exists>r. parser matchRefTypeName_spec plainBuiltins exampleDocument ''/pets/{id}'' ''put'' = Inr (Some r)
         \<and> distinct (map interface_name (result_interfaces r))
         \<and> (\<forall>n. find (\<lambda>i. interface_name i = n) (result_interfaces r)
                 = find (\<lambda>i. interface_name i = n)
                     (resolvePath matchRefTypeName_spec (matchPathVars ''/pets/{id}'') updateOperation
                        (swagger_schemas exampleDocument)
                      @ resolveQuery matchRefTypeName_spec (matchPathVars ''/pets/{id}'') updateOperation
                          (swagger_schemas exampleDocument)
                      @ fst (resolveSchema matchRefTypeName_spec
                               (firstSchema (Option.bind (request_requestBody updateOperation)
                                               requestBody_content))
                               (swagger_schemas exampleDocument) ''RequestBody'')
                      @ fst (resolveSchema matchRefTypeName_spec
                               (firstSchema (Option.bind (map_of (request_responses updateOperation) ''200'')
                                               response_content))
                               (swagger_schemas exampleDocument) ''ResponseBody''))))
   \<and> map interface_name
        (resolvePath matchRefTypeName_spec (matchPathVars ''/pets/{id}'') updateOperation
           (swagger_schemas exampleDocument)
         @ resolveQuery matchRefTypeName_spec (matchPathVars ''/pets/{id}'') updateOperation
             (swagger_schemas exampleDocument)
         @ fst (resolveSchema matchRefTypeName_spec
                  (firstSchema (Option.bind (request_requestBody updateOperation) requestBody_content))
                  (swagger_schemas exampleDocument) ''RequestBody'')
         @ fst (resolveSchema matchRefTypeName_spec
                  (firstSchema (Option.bind (map_of (request_responses updateOperation) ''200'')
                                  response_content))
                  (swagger_schemas exampleDocument) ''ResponseBody''))
       = [''UpdatePetPathVar'', ''Pet'', ''Pet'']
   \<and> (case parser matchRefTypeName_spec plainBuiltins exampleDocument ''/pets/{id}'' ''put'' of
         Inr (Some r) \<Rightarrow> map interface_name (result_interfaces r)
       | _ \<Rightarrow> [])
       = [''UpdatePetPathVar'', ''Pet'']"
proof -
  have h: "Option.bind (map_of (swagger_paths exampleDocument) ''/pets/{id}'')
     (\<lambda>operations. map_of operations ''put'') = Some updateOperation"
    by (simp add: exampleDocument_def)
  note inst = parse_result_interfaces_deduplicated
    [OF h, where m = matchRefTypeName_spec and b = plainBuiltins]
  have e1: "map interface_name
        (resolvePath matchRefTypeName_spec (matchPathVars ''/pets/{id}'') updateOperation
           (swagger_schemas exampleDocument)
         @ resolveQuery matchRefTypeName_spec (matchPathVars ''/pets/{id}'') updateOperation
             (swagger_schemas exampleDocument)
         @ fst (resolveSchema matchRefTypeName_spec
                  (firstSchema (Option.bind (request_requestBody updateOperation) requestBody_content))
                  (swagger_schemas exampleDocument) ''RequestBody'')
         @ fst (resolveSchema matchRefTypeName_spec
                  (firstSchema (Option.bind (map_of (request_responses updateOperation) ''200'')
                                  response_content))
                  (swagger_schemas exampleDocument) ''ResponseBody''))
       = [''UpdatePetPathVar'', ''Pet'', ''Pet'']"
    by code_simp
  have e2: "(case parser matchRefTypeName_spec plainBuiltins exampleDocument ''/pets/{id}'' ''put'' of
         Inr (Some r) \<Rightarrow> map interface_name (result_interfaces r)
       | _ \<Rightarrow> [])
       = [''UpdatePetPathVar'', ''Pet'']"
    by code_simp
  show ?thesis
    by (rule conjI[OF h conjI[OF inst conjI[OF e1 e2]]])
qed

end
